theory Spec2Isabelle
  imports Complex_Main
begin

section \<open>Values the client handles\<close>

text \<open>
  The client (\<^verbatim>\<open>static/js/app.js\<close>) is JavaScript: every piece of data it renders or
  sends is a dynamically typed value, most of them parsed from JSON answers of the server.
  \<open>jsval\<close> is the type of these values: the JSON values, and \<open>Undefined\<close> for what a
  read of a missing property gives. \<open>Num\<close> holds the integral numbers (identifiers, levels,
  timestamps; below \<open>10^21\<close> in size, where \<open>String\<close> writes out all the digits); \<open>Obj\<close>
  lists the properties of an object in the order of the text.

  A \<open>char\<close> stands for one code unit below \<open>0x100\<close>, so \<open>CHR 0xA0\<close> is the no-break
  space.
\<close>

datatype jsval =
    Undefined
  | Null
  | Bool bool
  | Num int
  | Str string
  | Arr "jsval list"
  | Obj "(string \<times> jsval) list"

datatype error =
    TypeError        \<comment> \<open>a property read on \<open>null\<close> or \<open>undefined\<close>; an object that has no text\<close>
  | SyntaxError      \<comment> \<open>text that is not JSON given to \<open>JSON.parse\<close> or \<open>res.json()\<close>\<close>
  | FetchFailed      \<comment> \<open>\<open>fetch\<close> rejected: no response at all\<close>
  | CreateFailed jsval  \<comment> \<open>\<open>new Error(msg)\<close> of a refused venue; holds the answer \<open>msg\<close> is built from\<close>
  | Error string     \<comment> \<open>\<open>throw new Error(msg)\<close> of the client itself\<close>

text \<open>Truthiness, as \<open>if (v)\<close>, \<open>!v\<close>, \<open>a || b\<close> and \<open>c ? a : b\<close> decide it.\<close>

fun truthy :: "jsval \<Rightarrow> bool" where
  "truthy Undefined = False"
| "truthy Null = False"
| "truthy (Bool b) = b"
| "truthy (Num n) = (n \<noteq> 0)"
| "truthy (Str s) = (s \<noteq> [])"
| "truthy (Arr xs) = True"
| "truthy (Obj kvs) = True"

text \<open>\<open>a || b\<close> and \<open>a ?? b\<close>.\<close>

definition js_or :: "jsval \<Rightarrow> jsval \<Rightarrow> jsval" where
  "js_or a b = (if truthy a then a else b)"

fun nullish :: "jsval \<Rightarrow> bool" where
  "nullish Undefined = True"
| "nullish Null = True"
| "nullish v = False"

definition js_coalesce :: "jsval \<Rightarrow> jsval \<Rightarrow> jsval" where
  "js_coalesce a b = (if nullish a then b else a)"

text \<open>
  \<open>String(v)\<close>, which template literals, property keys, \<open>textContent\<close> and
  \<open>localStorage.setItem\<close> apply to a value that is not a string already.

  An object is converted by calling its \<open>toString\<close>. An object parsed from JSON inherits
  the one of \<open>Object.prototype\<close>, which answers \<open>[object Object]\<close>, unless the object
  has a property of its own named \<open>toString\<close>: that one is JSON data and cannot be called,
  \<open>valueOf\<close> (inherited, or data as well) gives no primitive value either, and the
  conversion throws a \<open>TypeError\<close>. An array is converted by joining the texts of its
  elements (nothing for \<open>null\<close> and \<open>undefined\<close>) with commas, so it throws when the
  conversion of an element does; the first element that throws decides.
\<close>

definition digit_char :: "nat \<Rightarrow> char" where
  "digit_char d = ''0123456789'' ! d"

fun nat_to_string :: "nat \<Rightarrow> string" where
  "nat_to_string n =
     (if n < 10 then [digit_char n] else nat_to_string (n div 10) @ [digit_char (n mod 10)])"

declare nat_to_string.simps [simp del]

definition int_to_string :: "int \<Rightarrow> string" where
  "int_to_string i =
     (if i < 0 then CHR ''-'' # nat_to_string (nat (- i)) else nat_to_string (nat i))"

fun join :: "string \<Rightarrow> string list \<Rightarrow> string" where
  "join sep [] = []"
| "join sep [x] = x"
| "join sep (x # y # ys) = x @ sep @ join sep (y # ys)"

fun to_string :: "jsval \<Rightarrow> error + string"
  and element_strings :: "jsval list \<Rightarrow> error + string list" where
  "to_string Undefined = Inr ''undefined''"
| "to_string Null = Inr ''null''"
| "to_string (Bool b) = Inr (if b then ''true'' else ''false'')"
| "to_string (Num n) = Inr (int_to_string n)"
| "to_string (Str s) = Inr s"
| "to_string (Arr xs) =
     (case element_strings xs of Inl e \<Rightarrow> Inl e | Inr ts \<Rightarrow> Inr (join '','' ts))"
| "to_string (Obj kvs) =
     (if ''toString'' \<in> set (map fst kvs) then Inl TypeError else Inr ''[object Object]'')"
| "element_strings [] = Inr []"
| "element_strings (x # xs) =
     (case (if nullish x then Inr [] else to_string x) of
        Inl e \<Rightarrow> Inl e
      | Inr t \<Rightarrow> (case element_strings xs of Inl e \<Rightarrow> Inl e | Inr ts \<Rightarrow> Inr (t # ts)))"

text \<open>Running \<open>f\<close> on the result of a step that did not throw.\<close>

definition and_then :: "error + 'a \<Rightarrow> ('a \<Rightarrow> error + 'b) \<Rightarrow> error + 'b" where
  "and_then r f = (case r of Inl e \<Rightarrow> Inl e | Inr x \<Rightarrow> f x)"

text \<open>
  A property read \<open>v.k\<close> with a fixed name \<open>k\<close>. It throws on \<open>null\<close> and \<open>undefined\<close>.
  On an object parsed from JSON the last of several equal keys is the one kept. The names
  this client reads from data (\<open>confidence_record\<close>, \<open>confidenceLevel\<close>, \<open>valid\<close>,
  \<open>masjidID\<close>, \<open>access\<close>, \<open>refresh\<close>, \<open>username\<close>, ...) are no members of a built-in
  prototype, so a read that finds no own property gives \<open>undefined\<close>.
\<close>

fun get_prop :: "jsval \<Rightarrow> string \<Rightarrow> error + jsval" where
  "get_prop Undefined k = Inl TypeError"
| "get_prop Null k = Inl TypeError"
| "get_prop (Obj kvs) k = Inr (case map_of (rev kvs) k of None \<Rightarrow> Undefined | Some v \<Rightarrow> v)"
| "get_prop v k = Inr Undefined"

text \<open>Optional chaining \<open>v?.k\<close>.\<close>

definition opt_prop :: "jsval \<Rightarrow> string \<Rightarrow> jsval" where
  "opt_prop v k = (case get_prop v k of Inl e \<Rightarrow> Undefined | Inr x \<Rightarrow> x)"


section \<open>Confidence badges\<close>

text \<open>
  \<^verbatim>\<open>
  function confidenceBadgeHTML(level) {
    const map = { 0: {cls:'c0', icon:'fas fa-circle', label:'Community Reported'}, 1: ..., 2: ..., 3: ... };
    const info = map[level] || map[0];
    return `<span class="confidence-badge ${info.cls}"><i class="${info.icon}"></i> ${info.label}</span>`;
  }
  \<close>
  \<open>map\<close> is an object literal, so \<open>map[level]\<close> converts \<open>level\<close> to a property key
  with \<open>String\<close> (which throws for a value that has no text) and looks it up among the
  four own properties first and then on \<open>Object.prototype\<close>, whose members
  (\<open>constructor\<close>, \<open>toString\<close>, ...) are functions or objects: truthy values whose
  \<open>cls\<close>, \<open>icon\<close> and \<open>label\<close> read as \<open>undefined\<close>.
\<close>

record badge_info =
  cls :: string
  icon :: string
  label :: string

datatype member = Own badge_info | Inherited | Missing

definition level_map :: "(string \<times> badge_info) list" where
  "level_map =
    [(''0'', \<lparr>cls = ''c0'', icon = ''fas fa-circle'', label = ''Community Reported''\<rparr>),
     (''1'', \<lparr>cls = ''c1'', icon = ''fas fa-users'', label = ''Community Confirmed''\<rparr>),
     (''2'', \<lparr>cls = ''c2'', icon = ''fas fa-check-circle'', label = ''Verified''\<rparr>),
     (''3'', \<lparr>cls = ''c3'', icon = ''fas fa-shield-alt'', label = ''Actively Maintained''\<rparr>)]"

definition object_prototype_keys :: "string list" where
  "object_prototype_keys =
    [''constructor'', ''__defineGetter__'', ''__defineSetter__'', ''hasOwnProperty'',
     ''__lookupGetter__'', ''__lookupSetter__'', ''isPrototypeOf'', ''propertyIsEnumerable'',
     ''toString'', ''valueOf'', ''__proto__'', ''toLocaleString'']"

definition map_get :: "string \<Rightarrow> member" where
  "map_get key =
     (case map_of level_map key of
        Some e \<Rightarrow> Own e
      | None \<Rightarrow> if key \<in> set object_prototype_keys then Inherited else Missing)"

text \<open>\<open>${info.f}\<close> for \<open>f\<close> one of \<open>cls\<close>, \<open>icon\<close>, \<open>label\<close>.\<close>

fun info_field :: "(badge_info \<Rightarrow> string) \<Rightarrow> member \<Rightarrow> string" where
  "info_field f (Own e) = f e"
| "info_field f Inherited = ''undefined''"
| "info_field f Missing = ''undefined''"

definition confidenceBadgeHTML :: "jsval \<Rightarrow> error + string" where
  \<open>confidenceBadgeHTML level =
     (case to_string level of
        Inl e \<Rightarrow> Inl e
      | Inr key \<Rightarrow>
          (let info = (case map_get key of
                         Missing \<Rightarrow> map_get ''0''
                       | found \<Rightarrow> found)
           in Inr (''<span class="confidence-badge '' @ info_field cls info @ ''"><i class="''
                   @ info_field icon info @ ''"></i> '' @ info_field label info @ ''</span>'')))\<close>

text \<open>The markup of the four levels, written out.\<close>

definition badge_markup :: "nat \<Rightarrow> string" where
  \<open>badge_markup k =
     (if k = 1 then
        ''<span class="confidence-badge c1"><i class="fas fa-users"></i> Community Confirmed</span>''
      else if k = 2 then
        ''<span class="confidence-badge c2"><i class="fas fa-check-circle"></i> Verified</span>''
      else if k = 3 then
        ''<span class="confidence-badge c3"><i class="fas fa-shield-alt"></i> Actively Maintained</span>''
      else
        ''<span class="confidence-badge c0"><i class="fas fa-circle"></i> Community Reported</span>'')\<close>


section \<open>Escaping\<close>

text \<open>
  \<^verbatim>\<open>
  function escHTML(s) {
    const d = document.createElement('div');
    d.textContent = s || '';
    return d.innerHTML;
  }
  \<close>
  The \<open>div\<close> is never attached to the page. Setting \<open>textContent\<close> converts
  \<open>s || ''\<close> with \<open>String\<close>, which throws for a value that has no text, and makes the
  text the only child of the \<open>div\<close>; \<open>innerHTML\<close> serialises a text node by the
  escaping rule of the HTML standard for text: \<open>&\<close>, the no-break space, \<open><\<close> and
  \<open>>\<close> become entities, every other character is copied (both quotes included).
\<close>

definition escape_char :: "char \<Rightarrow> string" where
  "escape_char c =
     (if c = CHR ''&'' then ''&amp;''
      else if c = CHR 0xA0 then ''&nbsp;''
      else if c = CHR ''<'' then ''&lt;''
      else if c = CHR ''>'' then ''&gt;''
      else [c])"

definition text_innerHTML :: "string \<Rightarrow> string" where
  "text_innerHTML t = concat (map escape_char t)"

definition escHTML :: "jsval \<Rightarrow> error + string" where
  "escHTML s =
     (case to_string (js_or s (Str [])) of
        Inl e \<Rightarrow> Inl e
      | Inr t \<Rightarrow> Inr (text_innerHTML t))"

text \<open>
  The same rule on every code unit of a text, given by its number; a \<open>char\<close> is one of
  those below \<open>0x100\<close>.
\<close>

definition escape_unit :: "nat \<Rightarrow> nat list" where
  "escape_unit c =
     (if c = 0x26 then map of_char ''&amp;''
      else if c = 0xA0 then map of_char ''&nbsp;''
      else if c = 0x3C then map of_char ''&lt;''
      else if c = 0x3E then map of_char ''&gt;''
      else [c])"

definition units_innerHTML :: "nat list \<Rightarrow> nat list" where
  "units_innerHTML us = concat (map escape_unit us)"

text \<open>
  What a browser reads back from escaped text: \<open>None\<close> when the text holds a bare
  \<open><\<close> or \<open>>\<close>, or an \<open>&\<close> that starts none of the four entities.
\<close>

fun parse_text :: "string \<Rightarrow> string option" where
  "parse_text [] = Some []"
| "parse_text (c # cs) =
     (if c = CHR ''&'' then
        (if take 4 cs = ''amp;'' then map_option ((#) CHR ''&'') (parse_text (drop 4 cs))
         else if take 5 cs = ''nbsp;'' then map_option ((#) CHR 0xA0) (parse_text (drop 5 cs))
         else if take 3 cs = ''lt;'' then map_option ((#) CHR ''<'') (parse_text (drop 3 cs))
         else if take 3 cs = ''gt;'' then map_option ((#) CHR ''>'') (parse_text (drop 3 cs))
         else None)
      else if c = CHR ''<'' \<or> c = CHR ''>'' then None
      else map_option ((#) c) (parse_text cs))"


section \<open>Where a venue's level comes from\<close>

text \<open>
  A venue record \<open>m\<close> is an element of the server's list of masjids. Each place that
  renders one computes \<open>level\<close> and hands it to \<open>confidenceBadgeHTML\<close>.

  \<open>masjidCardHTML\<close> (the cards of the home page and of the explore grid):
  \<^verbatim>\<open>const cr = m.confidence_record;  const level = cr ? cr.confidenceLevel : 0;\<close>
\<close>

definition masjidCardHTML_level :: "jsval \<Rightarrow> error + jsval" where
  "masjidCardHTML_level m =
     (case get_prop m ''confidence_record'' of
        Inl e \<Rightarrow> Inl e
      | Inr cr \<Rightarrow> if truthy cr then get_prop cr ''confidenceLevel'' else Inr (Num 0))"

text \<open>
  \<open>searchMasjids\<close> (the confidence filter and the map popup):
  \<^verbatim>\<open>const level = m.confidence_record?.confidenceLevel ?? 0;\<close>
\<close>

definition chained_level :: "jsval \<Rightarrow> error + jsval" where
  "chained_level m =
     (case get_prop m ''confidence_record'' of
        Inl e \<Rightarrow> Inl e
      | Inr cr \<Rightarrow> Inr (js_coalesce (opt_prop cr ''confidenceLevel'') (Num 0)))"

text \<open>
  The detail page (\<open>initDetail\<close>), the list of the verify page (\<open>initVerify\<close>) and the
  older map popup:
  \<^verbatim>\<open>var level = (m.confidence_record && m.confidence_record.confidenceLevel != null)
                 ? m.confidence_record.confidenceLevel : 0;\<close>
\<close>

definition guarded_level :: "jsval \<Rightarrow> error + jsval" where
  "guarded_level m =
     (case get_prop m ''confidence_record'' of
        Inl e \<Rightarrow> Inl e
      | Inr cr \<Rightarrow>
          if truthy cr then
            (case get_prop cr ''confidenceLevel'' of
               Inl e \<Rightarrow> Inl e
             | Inr l \<Rightarrow> if \<not> nullish l then Inr l else Inr (Num 0))
          else Inr (Num 0))"

text \<open>The badge each place shows: \<open>confidenceBadgeHTML(level)\<close>.\<close>

definition masjidCardHTML_badge :: "jsval \<Rightarrow> error + string" where
  "masjidCardHTML_badge m = and_then (masjidCardHTML_level m) confidenceBadgeHTML"

definition popup_badge :: "jsval \<Rightarrow> error + string" where
  "popup_badge m = and_then (chained_level m) confidenceBadgeHTML"

definition old_popup_badge :: "jsval \<Rightarrow> error + string" where
  "old_popup_badge m = and_then (guarded_level m) confidenceBadgeHTML"

definition detail_badge :: "jsval \<Rightarrow> error + string" where
  "detail_badge m = and_then (guarded_level m) confidenceBadgeHTML"

definition verify_list_badge :: "jsval \<Rightarrow> error + string" where
  "verify_list_badge m = and_then (guarded_level m) confidenceBadgeHTML"


section \<open>The session\<close>

text \<open>
  \<^verbatim>\<open>
  const Auth = {
    getAccess()  { return localStorage.getItem('al_access'); },
    getRefresh() { return localStorage.getItem('al_refresh'); },
    getUser()    { return JSON.parse(localStorage.getItem('al_user') || 'null'); },
    clear()      { localStorage.removeItem('al_access'); localStorage.removeItem('al_refresh');
                   localStorage.removeItem('al_user'); },
    isLoggedIn() { return !!this.getAccess(); },
    async refreshToken() { ... } };
  \<close>
  The session is three keys of \<open>localStorage\<close>; \<open>None\<close> is a key that is not there
  (\<open>getItem\<close> gives \<open>null\<close>). The text under \<open>al_user\<close> is kept by what
  \<open>JSON.parse\<close> makes of it.
\<close>

datatype user_text =
    Empty          \<comment> \<open>the empty text: falsy, so \<open>'null'\<close> is parsed in its place\<close>
  | Malformed      \<comment> \<open>a text that \<open>JSON.parse\<close> rejects\<close>
  | Json jsval     \<comment> \<open>the JSON text of a value\<close>

record storage =
  al_access :: "string option"
  al_refresh :: "string option"
  al_user :: "user_text option"

definition getAccess :: "storage \<Rightarrow> string option" where
  "getAccess s = al_access s"

definition getRefresh :: "storage \<Rightarrow> string option" where
  "getRefresh s = al_refresh s"

definition getUser :: "storage \<Rightarrow> error + jsval" where
  "getUser s =
     (case al_user s of
        None \<Rightarrow> Inr Null
      | Some Empty \<Rightarrow> Inr Null
      | Some Malformed \<Rightarrow> Inl SyntaxError
      | Some (Json v) \<Rightarrow> Inr v)"

definition clear :: "storage \<Rightarrow> storage" where
  "clear s = s\<lparr>al_access := None, al_refresh := None, al_user := None\<rparr>"

text \<open>Truthiness of what \<open>getItem\<close> gives: a text that is there and not empty.\<close>

definition held :: "string option \<Rightarrow> bool" where
  "held t = (case t of None \<Rightarrow> False | Some x \<Rightarrow> x \<noteq> [])"

definition isLoggedIn :: "storage \<Rightarrow> bool" where
  "isLoggedIn s = held (getAccess s)"


section \<open>Requests and the network\<close>

text \<open>
  The bodies the client sends are \<open>JSON.stringify\<close> of object literals; each constructor
  is one of these literals, its arguments the values of the properties in their order:
  \<^item> \<open>{ refresh }\<close>
  \<^item> \<open>{ name, description: desc || null, isActive: isAdmin }\<close>
  \<^item> \<open>{ masjid, latitude, longitude, city, country, region: region || null }\<close>
  \<^item> \<open>{ masjid, signalType, sourceType, description }\<close>, and \<open>user\<close> when it was set
  \<^item> \<open>{ user, masjid, verifiedIdentity }\<close>
  \<open>number\<close> is what \<open>parseFloat\<close> gives for a coordinate field.
\<close>

datatype number = NaN | Finite real | PosInfinity | NegInfinity

datatype signal_description =
    AdminDirectSubmission      \<comment> \<open>\<open>'Masjid admin direct submission'\<close>\<close>
  | CommunityInitialSignal     \<comment> \<open>the text \<open>'Community report'\<close>, a dash, \<open>'initial signal'\<close>\<close>

datatype body =
    RefreshBody string
  | MasjidBody string jsval bool
  | LocationBody jsval number number string string jsval
  | SignalBody jsval string string signal_description "jsval option"
  | AdminLinkBody jsval jsval bool

record options =
  opt_method :: "string option"
  opt_headers :: "(string \<times> string) list option"
  opt_body :: "body option"

record request =
  req_url :: string
  req_options :: options

text \<open>
  A response: its status, and what \<open>res.json()\<close> resolves to (\<open>None\<close> when the body is
  no JSON text, so that \<open>res.json()\<close> rejects). \<open>fetch\<close> resolves to a response or
  rejects when no response arrives.
\<close>

record response =
  status :: nat
  json :: "jsval option"

definition ok :: "response \<Rightarrow> bool" where
  "ok res = (200 \<le> status res \<and> status res \<le> 299)"

datatype outcome = Response response | Rejected

text \<open>
  The world outside the client answers each request; what it answers may depend on
  everything sent so far. \<open>net qs\<close> is the answer to the last request of \<open>qs\<close>, the
  requests sent up to and including it. The state of a run is the session and the list
  of requests sent. A run is one call taken alone: nothing else writes the session
  while the call waits for an answer.
\<close>

type_synonym network = "request list \<Rightarrow> outcome"

record world =
  localStorage :: storage
  sent :: "request list"

definition fetch :: "network \<Rightarrow> request \<Rightarrow> world \<Rightarrow> outcome \<times> world" where
  "fetch net q w = (net (sent w @ [q]), w\<lparr>sent := sent w @ [q]\<rparr>)"

text \<open>
  \<^verbatim>\<open>
  async refreshToken() {
    const refresh = this.getRefresh();
    if (!refresh) return false;
    try {
      const res = await fetch('/api/token/refresh/', { method: 'POST',
        headers: { 'Content-Type': 'application/json' }, body: JSON.stringify({ refresh }) });
      if (!res.ok) { this.clear(); return false; }
      const data = await res.json();
      localStorage.setItem('al_access', data.access);
      if (data.refresh) localStorage.setItem('al_refresh', data.refresh);
      return true;
    } catch { this.clear(); return false; }
  }
  \<close>
  \<open>setItem\<close> stores \<open>String\<close> of the value it is given. When that conversion throws
  nothing is written by this call, and the error is caught like every other: the session
  is cleared. The storage itself is taken to accept what is written to it.
\<close>

definition refresh_request :: "string \<Rightarrow> request" where
  "refresh_request r =
     \<lparr>req_url = ''/api/token/refresh/'',
      req_options = \<lparr>opt_method = Some ''POST'',
                     opt_headers = Some [(''Content-Type'', ''application/json'')],
                     opt_body = Some (RefreshBody r)\<rparr>\<rparr>"

definition cleared :: "world \<Rightarrow> world" where
  "cleared w = w\<lparr>localStorage := clear (localStorage w)\<rparr>"

definition refreshToken :: "network \<Rightarrow> world \<Rightarrow> bool \<times> world" where
  "refreshToken net w =
     (case getRefresh (localStorage w) of
        None \<Rightarrow> (False, w)
      | Some r \<Rightarrow>
          if r = [] then (False, w)
          else
            (case fetch net (refresh_request r) w of
               (Rejected, w1) \<Rightarrow> (False, cleared w1)
             | (Response res, w1) \<Rightarrow>
                 if \<not> ok res then (False, cleared w1)
                 else
                   (case json res of
                      None \<Rightarrow> (False, cleared w1)
                    | Some data \<Rightarrow>
                        (case get_prop data ''access'' of
                           Inl e \<Rightarrow> (False, cleared w1)
                         | Inr a \<Rightarrow>
                             (case to_string a of
                                Inl e \<Rightarrow> (False, cleared w1)
                              | Inr access \<Rightarrow>
                                  let w2 = w1\<lparr>localStorage := (localStorage w1)\<lparr>al_access := Some access\<rparr>\<rparr>;
                                      rf = opt_prop data ''refresh''
                                  in if truthy rf then
                                       (case to_string rf of
                                          Inl e \<Rightarrow> (False, cleared w2)
                                        | Inr r' \<Rightarrow>
                                            (True, w2\<lparr>localStorage := (localStorage w2)\<lparr>al_refresh := Some r'\<rparr>\<rparr>))
                                     else (True, w2))))))"

text \<open>
  \<^verbatim>\<open>
  async function authFetch(url, options = {}) {
    if (!options.headers) options.headers = {};
    const token = Auth.getAccess();
    if (token) options.headers['Authorization'] = `Bearer ${token}`;
    let res = await fetch(url, options);
    if (res.status === 401 && Auth.getRefresh()) {
      const refreshed = await Auth.refreshToken();
      if (refreshed) {
        options.headers['Authorization'] = `Bearer ${Auth.getAccess()}`;
        res = await fetch(url, options);
      }
    }
    return res;
  }
  \<close>
  An assignment \<open>headers[k] = v\<close> replaces the value of \<open>k\<close> where it stands, or adds
  \<open>k\<close> at the end. The result is the response the promise resolves to, or the error
  it rejects with.
\<close>

fun assign :: "string \<Rightarrow> string \<Rightarrow> (string \<times> string) list \<Rightarrow> (string \<times> string) list" where
  "assign k v [] = [(k, v)]"
| "assign k v ((k', v') # ps) = (if k' = k then (k, v) # ps else (k', v') # assign k v ps)"

definition bearer :: "string option \<Rightarrow> string" where
  "bearer t = ''Bearer '' @ (case t of None \<Rightarrow> ''null'' | Some x \<Rightarrow> x)"

definition set_authorization :: "string option \<Rightarrow> options \<Rightarrow> options" where
  "set_authorization t opts =
     opts\<lparr>opt_headers :=
            Some (assign ''Authorization'' (bearer t)
                    (case opt_headers opts of None \<Rightarrow> [] | Some h \<Rightarrow> h))\<rparr>"

definition first_options :: "storage \<Rightarrow> options \<Rightarrow> options" where
  "first_options s opts =
     (let opts1 = (if opt_headers opts = None then opts\<lparr>opt_headers := Some []\<rparr> else opts);
          token = getAccess s
      in if held token then set_authorization token opts1 else opts1)"

definition authFetch :: "network \<Rightarrow> string \<Rightarrow> options \<Rightarrow> world \<Rightarrow> (error + response) \<times> world" where
  "authFetch net u opts w =
     (let opts2 = first_options (localStorage w) opts
      in case fetch net \<lparr>req_url = u, req_options = opts2\<rparr> w of
           (Rejected, w1) \<Rightarrow> (Inl FetchFailed, w1)
         | (Response res, w1) \<Rightarrow>
             if status res = 401 \<and> held (getRefresh (localStorage w1)) then
               (case refreshToken net w1 of
                  (True, w2) \<Rightarrow>
                    (case fetch net \<lparr>req_url = u,
                                     req_options = set_authorization (getAccess (localStorage w2)) opts2\<rparr> w2 of
                       (Rejected, w3) \<Rightarrow> (Inl FetchFailed, w3)
                     | (Response res2, w3) \<Rightarrow> (Inr res2, w3))
                | (False, w2) \<Rightarrow> (Inr res, w2))
             else (Inr res, w1))"

text \<open>The requests a run sent: what it added to those sent before.\<close>

definition issued :: "world \<Rightarrow> world \<Rightarrow> request list" where
  "issued w w' = drop (length (sent w)) (sent w')"


text \<open>
  Reading an answer of the refresh endpoint. \<open>stored_credentials a\<close> is what
  \<open>refreshToken\<close> writes to the session when it returns \<open>true\<close> on the answer \<open>a\<close>: the
  new access credential \<open>String(data.access)\<close> and, when \<open>data.refresh\<close> is truthy,
  the new refresh credential \<open>String(data.refresh)\<close>. It is \<open>None\<close> for every answer
  that makes \<open>refreshToken\<close> clear the session and return \<open>false\<close>: no response, a
  response without \<open>res.ok\<close>, a body that does not parse or parses to \<open>null\<close>, and a
  credential that has no text.
\<close>

definition stored_credentials :: "outcome \<Rightarrow> (string \<times> string option) option" where
  "stored_credentials a =
     (case a of
        Rejected \<Rightarrow> None
      | Response res \<Rightarrow>
          if \<not> ok res then None
          else
            (case json res of
               None \<Rightarrow> None
             | Some data \<Rightarrow>
                 (case get_prop data ''access'' of
                    Inl e \<Rightarrow> None
                  | Inr a \<Rightarrow>
                      (case to_string a of
                         Inl e \<Rightarrow> None
                       | Inr access \<Rightarrow>
                           let rf = opt_prop data ''refresh''
                           in if truthy rf then
                                (case to_string rf of
                                   Inl e \<Rightarrow> None
                                 | Inr r' \<Rightarrow> Some (access, Some r'))
                              else Some (access, None)))))"

definition refresh_succeeds :: "outcome \<Rightarrow> bool" where
  "refresh_succeeds a = (stored_credentials a \<noteq> None)"

definition new_access :: "outcome \<Rightarrow> string" where
  "new_access a = (case stored_credentials a of None \<Rightarrow> [] | Some (access, r') \<Rightarrow> access)"

definition header :: "string \<Rightarrow> request \<Rightarrow> string option" where
  "header k q = (case opt_headers (req_options q) of None \<Rightarrow> None | Some h \<Rightarrow> map_of h k)"


section \<open>Reporting a masjid\<close>

text \<open>
  \<^verbatim>\<open>
  async function submitMasjidReport(isAdmin) {
    const name = document.getElementById('report-name').value.trim();
    ... desc, city, region likewise; country = the value of the select ...
    const lat = parseFloat(document.getElementById('report-lat').value);
    const lng = parseFloat(document.getElementById('report-lng').value);
    if (!name || !city || !country || isNaN(lat) || isNaN(lng)) { ...alert...; return; }
    try {
      // Regular users: isActive = false (needs 3 signals)
      // Masjid admins: isActive = true (direct add)
      const masjidRes = await authFetch(`${API}/masjids/`, { method: 'POST',
        headers: { 'Content-Type': 'application/json' },
        body: JSON.stringify({ name, description: desc || null, isActive: isAdmin }) });
      if (!masjidRes.ok) {
        const errData = await masjidRes.json().catch(() => ({}));
        const msg = Object.values(errData).flat().join(' ') || 'Failed to create masjid.';
        throw new Error(msg);
      }
      const masjid = await masjidRes.json();
      const locRes = await authFetch(`${API}/location-records/`, { ...
        body: JSON.stringify({ masjid: masjid.masjidID, latitude: lat, longitude: lng,
                               city, country, region: region || null }) });
      if (!locRes.ok) { console.warn(...); }
      const user = Auth.getUser();
      const signalBody = { masjid: masjid.masjidID,
        signalType: isAdmin ? 'ADMIN_VERIFY' : 'ACTIVE',
        sourceType: isAdmin ? 'ADMIN' : 'USER',
        description: isAdmin ? 'Masjid admin direct submission' : 'Community report ...' };
      if (user?.username) signalBody.user = user.username;
      await authFetch(`${API}/signals/`, { ... body: JSON.stringify(signalBody) });
      if (isAdmin && user?.username) {
        await authFetch(`${API}/masjid-admins/`, { ...
          body: JSON.stringify({ user: user.username, masjid: masjid.masjidID, verifiedIdentity: false }) });
      }
      ...success alert, form reset...
    } catch (err) { ...alert with err.message... } finally { ...button... }
  }
  \<close>
  The form is what the fields hold when the function starts. The result names the alert
  the function ends with: the one for missing fields (nothing was sent), the one of the
  \<open>catch\<close> block with the error caught, or the one for success.
\<close>

record form =
  report_name :: string
  report_desc :: string
  report_city :: string
  report_country :: string
  report_region :: string
  report_lat :: number
  report_lng :: number

datatype report_result = Invalid | Failed error | Reported

definition is_space :: "char \<Rightarrow> bool" where
  "is_space c = (c \<in> set [CHR 0x09, CHR 0x0A, CHR 0x0B, CHR 0x0C, CHR 0x0D, CHR 0x20, CHR 0xA0])"

definition trim :: "string \<Rightarrow> string" where
  "trim x = rev (dropWhile is_space (rev (dropWhile is_space x)))"

definition post :: "body \<Rightarrow> options" where
  "post b = \<lparr>opt_method = Some ''POST'',
             opt_headers = Some [(''Content-Type'', ''application/json'')],
             opt_body = Some b\<rparr>"

text \<open>\<open>x || null\<close> for a text \<open>x\<close>.\<close>

definition or_null :: "string \<Rightarrow> jsval" where
  "or_null x = (if x = [] then Null else Str x)"

text \<open>
  The error thrown when the venue is refused. \<open>Object.values\<close> throws on \<open>null\<close>;
  otherwise it lists the values of the answer (the own properties of an object, the
  elements of an array, the characters of a text, nothing for a number or a boolean),
  \<open>flat\<close> puts the elements of each list among them in its place, and \<open>join\<close> throws
  when one of the values has no text. Otherwise \<open>new Error(msg)\<close> is thrown. The values
  of an object are listed by the first place of each key in the text; a browser lists
  the keys that are array indices before the others, which changes the message and not
  whether there is one.
\<close>

fun own_values :: "jsval \<Rightarrow> jsval list" where
  "own_values (Obj kvs) =
     map (\<lambda>k. case map_of (rev kvs) k of None \<Rightarrow> Undefined | Some v \<Rightarrow> v)
       (rev (remdups (rev (map fst kvs))))"
| "own_values (Arr xs) = xs"
| "own_values (Str t) = map (\<lambda>c. Str [c]) t"
| "own_values v = []"

definition create_error :: "response \<Rightarrow> error" where
  "create_error res =
     (let errData = (case json res of None \<Rightarrow> Obj [] | Some d \<Rightarrow> d)
      in if nullish errData then TypeError
         else (case element_strings (own_values errData) of
                 Inl e \<Rightarrow> e
               | Inr ts \<Rightarrow> CreateFailed errData))"

definition signal_body :: "bool \<Rightarrow> jsval \<Rightarrow> jsval \<Rightarrow> body" where
  "signal_body isAdmin masjidID username =
     SignalBody masjidID
       (if isAdmin then ''ADMIN_VERIFY'' else ''ACTIVE'')
       (if isAdmin then ''ADMIN'' else ''USER'')
       (if isAdmin then AdminDirectSubmission else CommunityInitialSignal)
       (if truthy username then Some username else None)"

definition submitMasjidReport :: "bool \<Rightarrow> network \<Rightarrow> form \<Rightarrow> world \<Rightarrow> report_result \<times> world" where
  "submitMasjidReport isAdmin net f w =
     (let name = trim (report_name f);
          desc = trim (report_desc f);
          city = trim (report_city f);
          country = report_country f;
          region = trim (report_region f);
          lat = report_lat f;
          lng = report_lng f
      in
      if name = [] \<or> city = [] \<or> country = [] \<or> lat = NaN \<or> lng = NaN then (Invalid, w)
      else
        (case authFetch net ''/api/masjids/'' (post (MasjidBody name (or_null desc) isAdmin)) w of
           (Inl e, w1) \<Rightarrow> (Failed e, w1)
         | (Inr masjidRes, w1) \<Rightarrow>
             if \<not> ok masjidRes then (Failed (create_error masjidRes), w1)
             else
               (case json masjidRes of
                  None \<Rightarrow> (Failed SyntaxError, w1)
                | Some masjid \<Rightarrow>
                    (case get_prop masjid ''masjidID'' of
                       Inl e \<Rightarrow> (Failed e, w1)
                     | Inr masjidID \<Rightarrow>
                         (case authFetch net ''/api/location-records/''
                                 (post (LocationBody masjidID lat lng city country (or_null region))) w1 of
                            (Inl e, w2) \<Rightarrow> (Failed e, w2)
                          | (Inr locRes, w2) \<Rightarrow>
                              (case getUser (localStorage w2) of
                                 Inl e \<Rightarrow> (Failed e, w2)
                               | Inr user \<Rightarrow>
                                   let username = opt_prop user ''username''
                                   in
                                   (case authFetch net ''/api/signals/''
                                           (post (signal_body isAdmin masjidID username)) w2 of
                                      (Inl e, w3) \<Rightarrow> (Failed e, w3)
                                    | (Inr sigRes, w3) \<Rightarrow>
                                        if isAdmin \<and> truthy username then
                                          (case authFetch net ''/api/masjid-admins/''
                                                  (post (AdminLinkBody username masjidID False)) w3 of
                                             (Inl e, w4) \<Rightarrow> (Failed e, w4)
                                           | (Inr linkRes, w4) \<Rightarrow> (Reported, w4))
                                        else (Reported, w3))))))))"

text \<open>
  What the requests of a run say about the venue and its signal: the \<open>isActive\<close> flags of
  the venue bodies, and the \<open>signalType\<close> and \<open>sourceType\<close> of the signal bodies, in the
  order they were sent.
\<close>

fun venue_flag :: "request \<Rightarrow> bool option" where
  "venue_flag q =
     (case opt_body (req_options q) of
        Some (MasjidBody n d a) \<Rightarrow> Some a
      | _ \<Rightarrow> None)"

fun signal_kind :: "request \<Rightarrow> (string \<times> string) option" where
  "signal_kind q =
     (case opt_body (req_options q) of
        Some (SignalBody m t src d usr) \<Rightarrow> Some (t, src)
      | _ \<Rightarrow> None)"

definition venue_flags :: "request list \<Rightarrow> bool list" where
  "venue_flags qs = List.map_filter venue_flag qs"

definition signal_kinds :: "request list \<Rightarrow> (string \<times> string) list" where
  "signal_kinds qs = List.map_filter signal_kind qs"


text \<open>The check of the required fields.\<close>

definition filled :: "form \<Rightarrow> bool" where
  "filled f =
     (trim (report_name f) \<noteq> [] \<and> trim (report_city f) \<noteq> [] \<and> report_country f \<noteq> []
      \<and> report_lat f \<noteq> NaN \<and> report_lng f \<noteq> NaN)"

text \<open>
  The requests of one \<open>authFetch\<close> that posts the body \<open>b\<close>: the first carries \<open>b\<close>, and
  each of them carries \<open>b\<close> or is a call of the refresh endpoint.
\<close>

fun is_refresh :: "request \<Rightarrow> bool" where
  "is_refresh q =
     (case opt_body (req_options q) of
        Some (RefreshBody r) \<Rightarrow> True
      | _ \<Rightarrow> False)"

definition carries :: "body \<Rightarrow> request list \<Rightarrow> bool" where
  "carries b qs =
     (qs \<noteq> [] \<and> opt_body (req_options (hd qs)) = Some b
      \<and> list_all (\<lambda>q. opt_body (req_options q) = Some b \<or> is_refresh q) qs)"


section \<open>The verification page\<close>

text \<open>
  \<^verbatim>\<open>
  async function apiFetch(endpoint, params = {}) {
    const url = new URL(endpoint, window.location.origin);
    Object.entries(params).forEach(...);
    const res = await fetch(url);
    if (!res.ok) throw new Error(`API ${res.status}`);
    return res.json();
  }
  \<close>
  The lookups below pass no parameters.
\<close>

definition apiFetch :: "network \<Rightarrow> string \<Rightarrow> world \<Rightarrow> (error + jsval) \<times> world" where
  "apiFetch net endpoint w =
     (case fetch net \<lparr>req_url = endpoint,
                      req_options = \<lparr>opt_method = None, opt_headers = None, opt_body = None\<rparr>\<rparr> w of
        (Rejected, w1) \<Rightarrow> (Inl FetchFailed, w1)
      | (Response res, w1) \<Rightarrow>
          if \<not> ok res then (Inl (Error (''API '' @ nat_to_string (status res))), w1)
          else (case json res of
                  None \<Rightarrow> (Inl SyntaxError, w1)
                | Some data \<Rightarrow> (Inr data, w1)))"

text \<open>
  \<^verbatim>\<open>
  async function initVerify() {
    const card = document.getElementById('verify-card');
    if (!card) return;
    const token = card.dataset.token;
    if (!token) return;
    try {
      const data = await apiFetch(`${API}/verify/${token}/`);
      ...
      if (data.valid) { ...'Badge Verified', the masjid and the dates... }
      else { ...'Badge Invalid'... }
    } catch (err) { ...'Badge Not Found'... }
  }
  \<close>
  The card is the part of the page the function writes: the class and content of the
  icon, the text and class of the title, the content of the body.

  \<open>new Date(v).toLocaleDateString()\<close> depends on the locale of the browser;
  \<open>localeDate v\<close> stands for the text it gives. \<open>new Date(v)\<close> first makes a primitive
  value of an object or array \<open>v\<close>: \<open>valueOf\<close> gives none, so this is the conversion to
  text, and \<open>new Date(v)\<close> throws exactly when \<open>String(v)\<close> does. A date that cannot be
  read is no error: its text is \<open>Invalid Date\<close>.

  An error thrown while the template of the valid branch is evaluated is caught like one
  of the lookup; the four writes made before it are overwritten by those of the \<open>catch\<close>
  block.
\<close>

definition date_text :: "(jsval \<Rightarrow> string) \<Rightarrow> jsval \<Rightarrow> error + string" where
  "date_text localeDate v =
     (case to_string v of Inl e \<Rightarrow> Inl e | Inr t \<Rightarrow> Inr (localeDate v))"

record verify_card =
  data_token :: "string option"
  icon_class :: string
  icon_html :: string
  title_text :: string
  title_class :: string
  body_html :: string

definition valid_body :: "(jsval \<Rightarrow> string) \<Rightarrow> jsval \<Rightarrow> error + string" where
  \<open>valid_body localeDate data =
     and_then (escHTML (opt_prop data ''masjid'')) (\<lambda>masjid.
     and_then (if truthy (opt_prop data ''issuedAt'')
               then date_text localeDate (opt_prop data ''issuedAt'') else Inr ''N/A'') (\<lambda>issuedAt.
     and_then (if truthy (opt_prop data ''expiresAt'')
               then date_text localeDate (opt_prop data ''expiresAt'') else Inr ''No expiry'') (\<lambda>expiresAt.
     and_then (to_string (opt_prop data ''masjidID'')) (\<lambda>masjidID.
       Inr (''\<newline>        <p class="mb-2">This badge is <strong>active and valid</strong>.</p>''
            @ ''\<newline>        <hr>''
            @ ''\<newline>        <p class="mb-1"><strong>Masjid:</strong> '' @ masjid @ ''</p>''
            @ ''\<newline>        <p class="mb-1"><strong>Issued:</strong> '' @ issuedAt @ ''</p>''
            @ ''\<newline>        <p class="mb-0"><strong>Expires:</strong> '' @ expiresAt @ ''</p>''
            @ ''\<newline>        <a href="/masjid/'' @ masjidID
            @ ''/" class="btn btn-al-primary mt-3">View Masjid</a>''
            @ ''\<newline>      '')))))\<close>

definition verified_card :: "string \<Rightarrow> verify_card \<Rightarrow> verify_card" where
  \<open>verified_card body el =
     el\<lparr>icon_class := ''verify-icon valid'',
          icon_html := ''<i class="fas fa-check"></i>'',
          title_text := ''Badge Verified'',
          title_class := ''verify-title text-success fw-bold fs-4'',
          body_html := body\<rparr>\<close>

definition invalid_card :: "verify_card \<Rightarrow> verify_card" where
  \<open>invalid_card el =
     el\<lparr>icon_class := ''verify-icon invalid'',
          icon_html := ''<i class="fas fa-times"></i>'',
          title_text := ''Badge Invalid'',
          title_class := ''verify-title text-danger fw-bold fs-4'',
          body_html := ''<p>This badge is <strong>no longer valid</strong>. It may have been revoked or expired.</p>''\<rparr>\<close>

definition not_found_card :: "verify_card \<Rightarrow> verify_card" where
  \<open>not_found_card el =
     el\<lparr>icon_class := ''verify-icon invalid'',
          icon_html := ''<i class="fas fa-question"></i>'',
          title_text := ''Badge Not Found'',
          title_class := ''verify-title text-danger fw-bold fs-4'',
          body_html := ''<p>No badge was found with this token.</p>''\<rparr>\<close>

definition verify_request :: "string \<Rightarrow> request" where
  "verify_request token =
     \<lparr>req_url = ''/api/verify/'' @ token @ ''/'',
      req_options = \<lparr>opt_method = None, opt_headers = None, opt_body = None\<rparr>\<rparr>"

definition initVerify ::
  "network \<Rightarrow> (jsval \<Rightarrow> string) \<Rightarrow> verify_card option \<Rightarrow> world \<Rightarrow> verify_card option \<times> world" where
  "initVerify net localeDate page w =
     (case page of
        None \<Rightarrow> (None, w)
      | Some el \<Rightarrow>
          if \<not> held (data_token el) then (Some el, w)
          else
            (case apiFetch net (''/api/verify/'' @ the (data_token el) @ ''/'') w of
               (Inl e, w1) \<Rightarrow> (Some (not_found_card el), w1)
             | (Inr data, w1) \<Rightarrow>
                 (case get_prop data ''valid'' of
                    Inl e \<Rightarrow> (Some (not_found_card el), w1)
                  | Inr v \<Rightarrow>
                      if truthy v then
                        (case valid_body localeDate data of
                           Inl e \<Rightarrow> (Some (not_found_card el), w1)
                         | Inr body \<Rightarrow> (Some (verified_card body el), w1))
                      else (Some (invalid_card el), w1))))"


section \<open>The badges of a masjid\<close>

text \<open>
  The detail page lists the badges of the masjid (\<open>initDetail\<close>); for each badge \<open>b\<close> of
  the server's list:
  \<^verbatim>\<open>
  <div class="verified-shield ${b.isActive && !b.isRevoked ? 'gold' : ''}" ...>
    <i class="fas ${b.isActive && !b.isRevoked ? 'fa-certificate' : 'fa-times-circle'}"></i>
    <span class="shield-label" ...>${b.isActive && !b.isRevoked ? 'Valid' : 'Revoked'}</span>
  </div>
  ... Badge #${String(b.badgeID).slice(0,8)} ... Issued: ${new Date(b.issueDate).toLocaleDateString()}
  ${b.expiryDate ? `<br><small class="text-muted">Expires: ${new Date(b.expiryDate).toLocaleDateString()}</small>` : ''}
  \<close>
  \<open>badge_row\<close> holds what the template interpolates. \<open>String(b.badgeID)\<close> and
  \<open>new Date(...)\<close> throw for a value that has no text; an error thrown for one badge
  leaves \<open>map\<close>, so that no row of the list is written.
\<close>

record badge_row =
  shield_class :: string
  shield_icon :: string
  shield_label :: string
  badge_number :: string
  issued_on :: string
  expires_on :: "string option"

text \<open>The test \<open>b.isActive && !b.isRevoked\<close>.\<close>

definition shown_valid :: "jsval \<Rightarrow> error + bool" where
  "shown_valid b =
     (case get_prop b ''isActive'' of
        Inl e \<Rightarrow> Inl e
      | Inr a \<Rightarrow>
          if truthy a then
            (case get_prop b ''isRevoked'' of Inl e \<Rightarrow> Inl e | Inr r \<Rightarrow> Inr (\<not> truthy r))
          else Inr False)"

definition badge_row_of :: "(jsval \<Rightarrow> string) \<Rightarrow> jsval \<Rightarrow> error + badge_row" where
  "badge_row_of localeDate b =
     and_then (shown_valid b) (\<lambda>v.
     and_then (to_string (opt_prop b ''badgeID'')) (\<lambda>badgeID.
     and_then (date_text localeDate (opt_prop b ''issueDate'')) (\<lambda>issueDate.
     and_then (if truthy (opt_prop b ''expiryDate'')
               then map_sum id Some (date_text localeDate (opt_prop b ''expiryDate''))
               else Inr None) (\<lambda>expiryDate.
       Inr \<lparr>shield_class = (if v then ''gold'' else []),
            shield_icon = (if v then ''fa-certificate'' else ''fa-times-circle''),
            shield_label = (if v then ''Valid'' else ''Revoked''),
            badge_number = take 8 badgeID,
            issued_on = issueDate,
            expires_on = expiryDate\<rparr>))))"

text \<open>The rows of the list \<open>badgeData.map(b => ...)\<close>: the first badge that throws decides.\<close>

fun badge_rows :: "(jsval \<Rightarrow> string) \<Rightarrow> jsval list \<Rightarrow> error + badge_row list" where
  "badge_rows localeDate [] = Inr []"
| "badge_rows localeDate (b # bs) =
     and_then (badge_row_of localeDate b) (\<lambda>row.
     and_then (badge_rows localeDate bs) (\<lambda>rows. Inr (row # rows)))"

text \<open>
  The rule of the specification, in its words: effective validity at an instant is
  \<open>active && !revoked && (expiry is absent || expiry > now)\<close>. \<open>spec_valid\<close> applies it
  to a badge of the server's list; \<open>getTime v\<close> stands for the instant
  \<open>new Date(v).getTime()\<close>, and an expiry is absent when \<open>b.expiryDate\<close> is falsy, as in
  the template.
\<close>

definition spec_effective_validity :: "bool \<Rightarrow> bool \<Rightarrow> int option \<Rightarrow> int \<Rightarrow> bool" where
  "spec_effective_validity active revoked expiry now =
     (active \<and> \<not> revoked \<and> (case expiry of None \<Rightarrow> True | Some e \<Rightarrow> e > now))"

definition expiry_of :: "(jsval \<Rightarrow> int) \<Rightarrow> jsval \<Rightarrow> int option" where
  "expiry_of getTime b =
     (if truthy (opt_prop b ''expiryDate'') then Some (getTime (opt_prop b ''expiryDate'')) else None)"

definition spec_valid :: "(jsval \<Rightarrow> int) \<Rightarrow> jsval \<Rightarrow> int \<Rightarrow> bool" where
  "spec_valid getTime b now =
     spec_effective_validity (truthy (opt_prop b ''isActive'')) (truthy (opt_prop b ''isRevoked''))
       (expiry_of getTime b) now"

text \<open>Timestamps given as numbers: \<open>new Date(n).getTime()\<close> is \<open>n\<close>.\<close>

fun millis :: "jsval \<Rightarrow> int" where
  "millis (Num n) = n"
| "millis v = 0"


section \<open>Notions used in the proofs\<close>

definition is_digit :: "char \<Rightarrow> bool" where
  "is_digit c = (c \<in> set ''0123456789'')"


section \<open>Sample runs\<close>

text \<open>
  Concrete sessions, forms, pages and networks on which the results below are run: a
  signed-in user, a network that accepts everything, one whose first answer is 401 and
  that then refreshes the session, one that answers the refresh with a credential that
  has no text, one that answers 401 to everything, one that is down,
  a value that has no text (the JSON text \<open>{"toString": 1}\<close>), and a verification endpoint that knows one revoked badge and answers 404 to any other
  token.
\<close>

definition no_text :: jsval where
  "no_text = Obj [(''toString'', Num 1)]"

definition signed_in :: world where
  "signed_in =
     \<lparr>localStorage = \<lparr>al_access = Some ''access-1'', al_refresh = Some ''refresh-1'',
                       al_user = Some (Json (Obj [(''username'', Str ''amina''),
                                                  (''accountType'', Str ''regular'')]))\<rparr>,
      sent = []\<rparr>"

definition sample_form :: form where
  "sample_form =
     \<lparr>report_name = '' Al-Noor '', report_desc = [], report_city = ''Leeds'',
      report_country = ''UK'', report_region = [],
      report_lat = Finite 53, report_lng = Finite (- 1)\<rparr>"

definition accepting_net :: network where
  "accepting_net qs = Response \<lparr>status = 201, json = Some (Obj [(''masjidID'', Str ''m-1'')])\<rparr>"

definition expired_net :: network where
  "expired_net qs =
     (if length qs = 1 then Response \<lparr>status = 401, json = None\<rparr>
      else if length qs = 2 then Response \<lparr>status = 200, json = Some (Obj [(''access'', Str ''access-2'')])\<rparr>
      else Response \<lparr>status = 200, json = Some (Obj [])\<rparr>)"

definition unreadable_net :: network where
  "unreadable_net qs =
     (if length qs = 1 then Response \<lparr>status = 401, json = None\<rparr>
      else Response \<lparr>status = 200, json = Some (Obj [(''access'', no_text)])\<rparr>)"

definition refusing_net :: network where
  "refusing_net qs = Response \<lparr>status = 401, json = None\<rparr>"

definition dead_net :: network where
  "dead_net qs = Rejected"

definition lookup_net :: network where
  "lookup_net qs =
     (if req_url (last qs) = ''/api/verify/revoked-1/''
      then Response \<lparr>status = 200, json = Some (Obj [(''valid'', Bool False)])\<rparr>
      else Response \<lparr>status = 404, json = Some (Obj [(''detail'', Str ''Not found.'')])\<rparr>)"

definition blank_card :: "string \<Rightarrow> verify_card" where
  "blank_card t =
     \<lparr>data_token = Some t, icon_class = ''verify-icon'', icon_html = [],
      title_text = [], title_class = ''verify-title'', body_html = []\<rparr>"

definition visitor :: world where
  "visitor = \<lparr>localStorage = \<lparr>al_access = None, al_refresh = None, al_user = None\<rparr>, sent = []\<rparr>"

definition expired_badge :: jsval where
  "expired_badge =
     Obj [(''badgeID'', Str ''b-1''), (''isActive'', Bool True), (''isRevoked'', Bool False),
          (''issueDate'', Num 1700000000000), (''expiryDate'', Num 1767225600000)]"

definition revoked_badge :: jsval where
  "revoked_badge =
     Obj [(''badgeID'', Str ''b-2''), (''isActive'', Bool True), (''isRevoked'', Bool True),
          (''issueDate'', Num 1700000000000)]"

definition admin_in :: world where
  "admin_in =
     \<lparr>localStorage = \<lparr>al_access = Some ''access-7'', al_refresh = Some ''refresh-7'',
                       al_user = Some (Json (Obj [(''username'', Str ''imam''),
                                                  (''accountType'', Str ''masjid_admin'')]))\<rparr>,
      sent = []\<rparr>"

text \<open>A browser whose dates read \<open>1/1/2026\<close> whatever the day.\<close>

definition fixed_date :: "jsval \<Rightarrow> string" where
  "fixed_date v = ''1/1/2026''"

definition sample_options :: options where
  "sample_options = post (MasjidBody ''Al-Noor'' Null False)"


section \<open>Numbers and property keys\<close>

lemma digit_char_cases:
  assumes "(k::nat) < 10"
  shows "k \<in> {0, 1, 2, 3, 4, 5, 6, 7, 8, 9}"
  using assms by auto

lemma digit_char_in: "k < 10 \<Longrightarrow> is_digit (digit_char k)"
  using digit_char_cases[of k] by (auto simp: digit_char_def is_digit_def)

lemma nat_to_string_digits: "c \<in> set (nat_to_string n) \<Longrightarrow> is_digit c"
proof (induction n rule: nat_to_string.induct)
  case (1 n)
  show ?case
  proof (cases "n < 10")
    case True
    with 1(2) have "c = digit_char n" by (subst (asm) nat_to_string.simps) simp
    then show ?thesis using digit_char_in[OF True] by simp
  next
    case False
    with 1(2) have "c \<in> set (nat_to_string (n div 10)) \<or> c = digit_char (n mod 10)"
      by (subst (asm) nat_to_string.simps) auto
    then show ?thesis using 1(1)[OF False] digit_char_in[of "n mod 10"] by auto
  qed
qed

lemma nat_to_string_nonempty: "nat_to_string n \<noteq> []"
  by (subst nat_to_string.simps) simp

lemma nat_to_string_single: "nat_to_string n = [c] \<Longrightarrow> n < 10 \<and> c = digit_char n"
  using nat_to_string_nonempty[of "n div 10"]
  by (subst (asm) nat_to_string.simps) (auto split: if_splits)

lemma int_to_string_digit:
  "int_to_string n = [c] \<longleftrightarrow> 0 \<le> n \<and> n < 10 \<and> c = digit_char (nat n)"
proof
  assume a: "int_to_string n = [c]"
  show "0 \<le> n \<and> n < 10 \<and> c = digit_char (nat n)"
  proof (cases "n < 0")
    case True
    with a have "nat_to_string (nat (- n)) = []" by (simp add: int_to_string_def)
    then show ?thesis using nat_to_string_nonempty by simp
  next
    case False
    with a have "nat_to_string (nat n) = [c]" by (simp add: int_to_string_def)
    from nat_to_string_single[OF this] False show ?thesis by auto
  qed
next
  assume "0 \<le> n \<and> n < 10 \<and> c = digit_char (nat n)"
  then show "int_to_string n = [c]"
    by (auto simp: int_to_string_def nat_to_string.simps[of "nat n"])
qed

lemma int_to_string_chars:
  assumes "c \<in> set (int_to_string n)"
  shows "c = CHR ''-'' \<or> is_digit c"
proof (cases "n < 0")
  case True
  then have "int_to_string n = CHR ''-'' # nat_to_string (nat (- n))"
    by (simp add: int_to_string_def)
  with assms have "c = CHR ''-'' \<or> c \<in> set (nat_to_string (nat (- n)))" by simp
  then show ?thesis using nat_to_string_digits by blast
next
  case False
  then have "int_to_string n = nat_to_string (nat n)"
    by (simp add: int_to_string_def)
  with assms show ?thesis using nat_to_string_digits by simp
qed

text \<open>Every member of \<open>Object.prototype\<close> has a \<open>t\<close> or a \<open>v\<close> in its name; no number has.\<close>

lemma object_prototype_keys_letters:
  "list_all (\<lambda>k. CHR ''t'' \<in> set k \<or> CHR ''v'' \<in> set k) object_prototype_keys"
  by (simp add: object_prototype_keys_def)

lemma int_to_string_not_inherited: "int_to_string n \<notin> set object_prototype_keys"
proof
  assume "int_to_string n \<in> set object_prototype_keys"
  with object_prototype_keys_letters
  have "CHR ''t'' \<in> set (int_to_string n) \<or> CHR ''v'' \<in> set (int_to_string n)"
    unfolding list_all_iff by blast
  then have "is_digit (CHR ''t'') \<or> is_digit (CHR ''v'')"
    using int_to_string_chars[of _ n] by auto
  then show False by (simp add: is_digit_def)
qed

lemma get_prop_Inl_iff: "(get_prop v k = Inl e) = (nullish v \<and> e = TypeError)"
  by (cases v) auto

lemma get_prop_Inr_iff: "(\<exists>x. get_prop v k = Inr x) = (\<not> nullish v)"
  by (cases v) auto

lemma get_prop_Inr_D: "get_prop v k = Inr x \<Longrightarrow> \<not> nullish v"
  by (cases v) auto


section \<open>The markup of a level\<close>

lemma map_get_cases:
  "map_get key =
     (if key = ''0'' then Own \<lparr>cls = ''c0'', icon = ''fas fa-circle'', label = ''Community Reported''\<rparr>
      else if key = ''1'' then Own \<lparr>cls = ''c1'', icon = ''fas fa-users'', label = ''Community Confirmed''\<rparr>
      else if key = ''2'' then Own \<lparr>cls = ''c2'', icon = ''fas fa-check-circle'', label = ''Verified''\<rparr>
      else if key = ''3'' then Own \<lparr>cls = ''c3'', icon = ''fas fa-shield-alt'', label = ''Actively Maintained''\<rparr>
      else if key \<in> set object_prototype_keys then Inherited else Missing)"
  by (simp add: map_get_def level_map_def)

lemma badge_of_key_0: "to_string v = Inr ''0'' \<Longrightarrow> confidenceBadgeHTML v = Inr (badge_markup 0)"
  by (simp add: confidenceBadgeHTML_def map_get_cases badge_markup_def)

lemma badge_of_key_1: "to_string v = Inr ''1'' \<Longrightarrow> confidenceBadgeHTML v = Inr (badge_markup 1)"
  by (simp add: confidenceBadgeHTML_def map_get_cases badge_markup_def)

lemma badge_of_key_2: "to_string v = Inr ''2'' \<Longrightarrow> confidenceBadgeHTML v = Inr (badge_markup 2)"
  by (simp add: confidenceBadgeHTML_def map_get_cases badge_markup_def)

lemma badge_of_key_3: "to_string v = Inr ''3'' \<Longrightarrow> confidenceBadgeHTML v = Inr (badge_markup 3)"
  by (simp add: confidenceBadgeHTML_def map_get_cases badge_markup_def)

lemma badge_of_other_key:
  assumes "to_string v = Inr key" and "key \<notin> set object_prototype_keys"
    and "key \<noteq> ''1''" and "key \<noteq> ''2''" and "key \<noteq> ''3''"
  shows "confidenceBadgeHTML v = Inr (badge_markup 0)"
  using assms by (simp add: confidenceBadgeHTML_def map_get_cases badge_markup_def)

lemma badge_of_inherited_key:
  assumes "to_string v = Inr key" and "key \<in> set object_prototype_keys"
  shows \<open>confidenceBadgeHTML v
         = Inr ''<span class="confidence-badge undefined"><i class="undefined"></i> undefined</span>''\<close>
proof -
  have "key \<noteq> ''0''" "key \<noteq> ''1''" "key \<noteq> ''2''" "key \<noteq> ''3''"
    using assms(2) by (auto simp: object_prototype_keys_def)
  then show ?thesis using assms by (simp add: confidenceBadgeHTML_def map_get_cases)
qed

lemma badge_of_no_key: "to_string v = Inl e \<Longrightarrow> confidenceBadgeHTML v = Inl e"
  by (simp add: confidenceBadgeHTML_def)

lemma badge_fails_iff: "(confidenceBadgeHTML v = Inl e) = (to_string v = Inl e)"
  by (simp add: confidenceBadgeHTML_def Let_def split: sum.splits)

lemma digit_char_values:
  "digit_char 0 = CHR ''0''" "digit_char (Suc 0) = CHR ''1''"
  "digit_char 2 = CHR ''2''" "digit_char 3 = CHR ''3''"
  by (simp_all add: digit_char_def)

lemma int_to_string_large:
  assumes "n < 0 \<or> 3 < n" and "c \<in> {CHR ''1'', CHR ''2'', CHR ''3''}"
  shows "int_to_string n \<noteq> [c]"
proof
  assume "int_to_string n = [c]"
  then have d: "0 \<le> n \<and> n < 10 \<and> c = digit_char (nat n)"
    using int_to_string_digit[of n c] by simp
  with assms(1) have "nat n \<in> {4, 5, 6, 7, 8, 9}" by auto
  with d assms(2) show False by (auto simp: digit_char_def)
qed

lemma badge_of_Num:
  "confidenceBadgeHTML (Num n) = Inr (badge_markup (if 0 \<le> n \<and> n \<le> 3 then nat n else 0))"
proof -
  consider "n = 0" | "n = 1" | "n = 2" | "n = 3" | "n < 0 \<or> 3 < n" by linarith
  then show ?thesis
  proof cases
    case 1
    have "to_string (Num n) = Inr ''0''"
      using 1 int_to_string_digit[of n "CHR ''0''"] by (simp add: digit_char_values)
    then show ?thesis using 1 badge_of_key_0 by simp
  next
    case 2
    have "to_string (Num n) = Inr ''1''"
      using 2 int_to_string_digit[of n "CHR ''1''"] by (simp add: digit_char_values)
    then show ?thesis using 2 badge_of_key_1 by simp
  next
    case 3
    have "to_string (Num n) = Inr ''2''"
      using 3 int_to_string_digit[of n "CHR ''2''"] by (simp add: digit_char_values)
    then show ?thesis using 3 badge_of_key_2 by simp
  next
    case 4
    have "to_string (Num n) = Inr ''3''"
      using 4 int_to_string_digit[of n "CHR ''3''"] by (simp add: digit_char_values)
    then show ?thesis using 4 badge_of_key_3 by simp
  next
    case 5
    have k: "to_string (Num n) = Inr (int_to_string n)" by simp
    have a: "int_to_string n \<noteq> ''1''" using int_to_string_large[OF 5] by simp
    have b: "int_to_string n \<noteq> ''2''" using int_to_string_large[OF 5] by simp
    have c: "int_to_string n \<noteq> ''3''" using int_to_string_large[OF 5] by simp
    from 5 have "\<not> (0 \<le> n \<and> n \<le> 3)" by auto
    then show ?thesis
      using badge_of_other_key[OF k int_to_string_not_inherited a b c] by auto
  qed
qed

lemma badge_of_nullish: "nullish v \<Longrightarrow> confidenceBadgeHTML v = Inr (badge_markup 0)"
  by (cases v) (simp_all add: badge_of_other_key object_prototype_keys_def)

lemma badge_of_Bool: "confidenceBadgeHTML (Bool b) = Inr (badge_markup 0)"
  by (cases b) (simp_all add: badge_of_other_key object_prototype_keys_def)

text \<open>
  A key that names a member of \<open>Object.prototype\<close> finds that member, which is truthy, so
  the fallback \<open>|| map[0]\<close> is not taken and the three fields read as \<open>undefined\<close>.
\<close>

lemma inherited_key_markup:
  \<open>confidenceBadgeHTML (Str ''constructor'')
     = Inr ''<span class="confidence-badge undefined"><i class="undefined"></i> undefined</span>''
   \<and> confidenceBadgeHTML (Str ''constructor'') \<noteq> Inr (badge_markup 0)\<close>
  by (simp add: badge_of_inherited_key object_prototype_keys_def badge_markup_def)

text \<open>
  C9, as amended. \<open>confidenceBadgeHTML(level)\<close> fails exactly when \<open>level\<close> has no text to
  serve as a property key, with the \<open>TypeError\<close> of that conversion. Otherwise: a number
  from 0 to 3 gives the markup of that level, and so does any value whose key is one of
  \<open>0\<close>, \<open>1\<close>, \<open>2\<close>, \<open>3\<close>; every other number, \<open>undefined\<close>, \<open>null\<close> and the booleans give
  the markup of level 0, and so does every value whose key is no name of a member of
  \<open>Object.prototype\<close>. Nothing is stated here for a key that is such a name.
\<close>

theorem confidenceBadgeHTML_levels:
  "confidenceBadgeHTML (Num n) = Inr (badge_markup (if 0 \<le> n \<and> n \<le> 3 then nat n else 0))
   \<and> confidenceBadgeHTML Undefined = Inr (badge_markup 0)
   \<and> confidenceBadgeHTML Null = Inr (badge_markup 0)
   \<and> confidenceBadgeHTML (Bool b) = Inr (badge_markup 0)
   \<and> (k \<le> 3 \<and> to_string v = Inr [digit_char k] \<longrightarrow> confidenceBadgeHTML v = Inr (badge_markup k))
   \<and> (to_string u = Inr key \<and> key \<notin> set object_prototype_keys
        \<and> key \<notin> set [''0'', ''1'', ''2'', ''3'']
        \<longrightarrow> confidenceBadgeHTML u = Inr (badge_markup 0))
   \<and> (confidenceBadgeHTML x = Inl e) = (to_string x = Inl e)
   \<and> (to_string (Obj kvs) = Inl TypeError) = (''toString'' \<in> fst ` set kvs)"
proof -
  have k: "confidenceBadgeHTML v = Inr (badge_markup k)" if "k \<le> 3" "to_string v = Inr [digit_char k]"
  proof -
    from that(1) consider "k = 0" | "k = 1" | "k = 2" | "k = 3" by linarith
    then show ?thesis
      using that(2) badge_of_key_0 badge_of_key_1 badge_of_key_2 badge_of_key_3
      by cases (simp_all add: digit_char_values)
  qed
  have o: "confidenceBadgeHTML u = Inr (badge_markup 0)"
    if "to_string u = Inr key" "key \<notin> set object_prototype_keys"
       "key \<notin> set [''0'', ''1'', ''2'', ''3'']"
    using that badge_of_other_key[of u key] by simp
  have t: "(to_string (Obj kvs) = Inl TypeError) = (''toString'' \<in> fst ` set kvs)"
    by simp
  show ?thesis
    using badge_of_Num[of n] badge_of_nullish[of Undefined] badge_of_nullish[of Null]
      badge_of_Bool[of b] k o badge_fails_iff[of x e] t
    by simp
qed

text \<open>
  The theorem of C9 at the texts \<open>2\<close> and \<open>high\<close>, at the number 7 and at an object that
  has no text, with the markup written out.
\<close>

theorem confidenceBadgeHTML_levels_witness:
  \<open>(2::nat) \<le> 3 \<and> to_string (Str ''2'') = Inr [digit_char 2]
   \<and> confidenceBadgeHTML (Str ''2'')
       = Inr ''<span class="confidence-badge c2"><i class="fas fa-check-circle"></i> Verified</span>''
   \<and> to_string (Str ''high'') = Inr ''high''
   \<and> ''high'' \<notin> set object_prototype_keys
   \<and> ''high'' \<notin> set [''0'', ''1'', ''2'', ''3'']
   \<and> confidenceBadgeHTML (Str ''high'')
       = Inr ''<span class="confidence-badge c0"><i class="fas fa-circle"></i> Community Reported</span>''
   \<and> confidenceBadgeHTML (Num 7)
       = Inr ''<span class="confidence-badge c0"><i class="fas fa-circle"></i> Community Reported</span>''
   \<and> to_string (Arr [Num 1, no_text]) = Inl TypeError
   \<and> confidenceBadgeHTML (Arr [Num 1, no_text]) = Inl TypeError\<close>
  using confidenceBadgeHTML_levels[of 7 True 2 "Str ''2''" "Str ''high''" "''high''"
      "Arr [Num 1, no_text]" TypeError "[]"]
  by (simp add: badge_markup_def object_prototype_keys_def digit_char_def no_text_def)

text \<open>
  C9 as stated fails: it promises a result for every input. An object that has a property
  of its own named \<open>toString\<close>, such as the JSON text \<open>{"toString": 1}\<close>, cannot be made a
  property key, and \<open>map[level]\<close> throws.
\<close>

theorem confidenceBadgeHTML_no_text:
  \<open>confidenceBadgeHTML (Obj [(''toString'', Num 1)]) = Inl TypeError
   \<and> confidenceBadgeHTML (Obj [(''toString'', Num 1)]) \<noteq> Inr (badge_markup 0)\<close>
  by (simp add: confidenceBadgeHTML_def)

text \<open>
  C8. A venue record whose \<open>confidence_record\<close> is absent (\<open>undefined\<close> or \<open>null\<close>), or
  whose \<open>confidenceLevel\<close> is \<open>null\<close> or missing, is shown with the badge of level 0,
  Community Reported, by the card, the map popups, the detail page and the verify list.
\<close>

theorem absent_confidence_shows_level0:
  assumes "get_prop m ''confidence_record'' = Inr cr"
    and "nullish cr \<or> (\<exists>l. get_prop cr ''confidenceLevel'' = Inr l \<and> nullish l)"
  shows "masjidCardHTML_badge m = Inr (badge_markup 0)
       \<and> popup_badge m = Inr (badge_markup 0)
       \<and> old_popup_badge m = Inr (badge_markup 0)
       \<and> detail_badge m = Inr (badge_markup 0)
       \<and> verify_list_badge m = Inr (badge_markup 0)"
proof -
  have zero: "confidenceBadgeHTML (Num 0) = Inr (badge_markup 0)"
    using badge_of_Num[of 0] by simp
  from assms(2) show ?thesis
  proof
    assume n: "nullish cr"
    have f: "\<not> truthy cr" using n by (cases cr) simp_all
    have c: "opt_prop cr ''confidenceLevel'' = Undefined"
      using n by (cases cr) (simp_all add: opt_prop_def)
    show ?thesis
      using assms(1) n zero f c
      by (simp add: masjidCardHTML_badge_def popup_badge_def old_popup_badge_def detail_badge_def
            verify_list_badge_def masjidCardHTML_level_def chained_level_def guarded_level_def js_coalesce_def
            and_then_def)
  next
    assume "\<exists>l. get_prop cr ''confidenceLevel'' = Inr l \<and> nullish l"
    then obtain l where l: "get_prop cr ''confidenceLevel'' = Inr l" "nullish l" by blast
    from l(1) have nn: "\<not> nullish cr" by (rule get_prop_Inr_D)
    show ?thesis
      using assms(1) l nn zero badge_of_nullish[OF l(2)]
      by (simp add: masjidCardHTML_badge_def popup_badge_def old_popup_badge_def detail_badge_def
            verify_list_badge_def masjidCardHTML_level_def chained_level_def guarded_level_def js_coalesce_def
            opt_prop_def and_then_def)
  qed
qed

text \<open>The theorem of C8 at a record whose \<open>confidenceLevel\<close> is \<open>null\<close>.\<close>

theorem absent_confidence_shows_level0_witness:
  \<open>get_prop (Obj [(''masjidID'', Str ''m-1''), (''name'', Str ''Al-Noor''),
                  (''confidence_record'', Obj [(''confidenceLevel'', Null)])]) ''confidence_record''
     = Inr (Obj [(''confidenceLevel'', Null)])
   \<and> get_prop (Obj [(''confidenceLevel'', Null)]) ''confidenceLevel'' = Inr Null \<and> nullish Null
   \<and> masjidCardHTML_badge (Obj [(''masjidID'', Str ''m-1''), (''name'', Str ''Al-Noor''),
                       (''confidence_record'', Obj [(''confidenceLevel'', Null)])])
       = Inr ''<span class="confidence-badge c0"><i class="fas fa-circle"></i> Community Reported</span>''
   \<and> detail_badge (Obj [(''masjidID'', Str ''m-1''), (''name'', Str ''Al-Noor''),
                       (''confidence_record'', Obj [(''confidenceLevel'', Null)])])
       = Inr ''<span class="confidence-badge c0"><i class="fas fa-circle"></i> Community Reported</span>''\<close>
  using absent_confidence_shows_level0[of
      "Obj [(''masjidID'', Str ''m-1''), (''name'', Str ''Al-Noor''),
            (''confidence_record'', Obj [(''confidenceLevel'', Null)])]"
      "Obj [(''confidenceLevel'', Null)]"]
  by (simp add: badge_markup_def)


section \<open>Escaped text\<close>

lemma parse_text_escape_char:
  "parse_text (escape_char c @ rest) = map_option ((#) c) (parse_text rest)"
  by (simp add: escape_char_def)

lemma parse_text_innerHTML: "parse_text (text_innerHTML t) = Some t"
  by (induction t) (simp_all add: text_innerHTML_def parse_text_escape_char del: parse_text.simps(2))

lemma escape_char_no_angle: "CHR ''<'' \<notin> set (escape_char c) \<and> CHR ''>'' \<notin> set (escape_char c)"
  by (simp add: escape_char_def)

lemma text_innerHTML_no_angle:
  "CHR ''<'' \<notin> set (text_innerHTML t) \<and> CHR ''>'' \<notin> set (text_innerHTML t)"
  using escape_char_no_angle by (induction t) (auto simp: text_innerHTML_def)

lemma escape_unit_no_angle: "0x3C \<notin> set (escape_unit c) \<and> 0x3E \<notin> set (escape_unit c)"
  by (simp add: escape_unit_def)

lemma units_innerHTML_no_angle:
  "0x3C \<notin> set (units_innerHTML us) \<and> 0x3E \<notin> set (units_innerHTML us)"
  using escape_unit_no_angle by (induction us) (auto simp: units_innerHTML_def)

lemma of_char_eq_nat: "(of_char c = (of_char d :: nat)) = (c = d)"
  by simp

lemma escape_unit_of_char: "escape_unit (of_char c) = map of_char (escape_char c)"
proof -
  have a: "(of_char c = (0x26::nat)) = (c = CHR ''&'')"
    using of_char_eq_nat[of c "CHR ''&''"] by simp
  have b: "(of_char c = (0xA0::nat)) = (c = CHR 0xA0)"
    using of_char_eq_nat[of c "CHR 0xA0"] by simp
  have d: "(of_char c = (0x3C::nat)) = (c = CHR ''<'')"
    using of_char_eq_nat[of c "CHR ''<''"] by simp
  have e: "(of_char c = (0x3E::nat)) = (c = CHR ''>'')"
    using of_char_eq_nat[of c "CHR ''>''"] by simp
  show ?thesis unfolding escape_unit_def escape_char_def a b d e by simp
qed

lemma units_innerHTML_of_char:
  "units_innerHTML (map of_char s) = map of_char (text_innerHTML s)"
  by (induction s) (simp_all add: units_innerHTML_def text_innerHTML_def escape_unit_of_char)

lemma escHTML_falsy: "\<not> truthy v \<Longrightarrow> escHTML v = Inr []"
  by (simp add: escHTML_def js_or_def text_innerHTML_def)

lemma escHTML_truthy: "truthy v \<Longrightarrow> escHTML v = map_sum id text_innerHTML (to_string v)"
  by (simp add: escHTML_def js_or_def split: sum.splits)

lemma no_text_truthy: "to_string v = Inl e \<Longrightarrow> truthy v"
  by (cases v) simp_all

lemma escHTML_result:
  assumes "escHTML v = Inr h"
  shows "CHR ''<'' \<notin> set h \<and> CHR ''>'' \<notin> set h \<and> (\<exists>t. parse_text h = Some t)"
proof -
  from assms obtain t where "h = text_innerHTML t"
    by (auto simp: escHTML_def split: sum.splits)
  then show ?thesis using text_innerHTML_no_angle[of t] parse_text_innerHTML[of t] by simp
qed

text \<open>
  C10, as amended. \<open>escHTML\<close> gives the empty text for \<open>null\<close>, \<open>undefined\<close>, the empty
  text and every other falsy value. For a text \<open>s\<close> it gives \<open>s\<close> with \<open>&\<close>, \<open><\<close>, \<open>>\<close>
  and the no-break space replaced by their entities: the result holds no \<open><\<close> and no
  \<open>>\<close>, every \<open>&\<close> in it starts one of the four entities, and read back as text it is
  \<open>s\<close> again; both quotes are copied as they are. For a truthy value that is no text it
  gives the escaped form of the text \<open>String\<close> makes of the value, and it fails, with the
  \<open>TypeError\<close> of that conversion, exactly when the value has no text. Whatever it
  returns holds no \<open><\<close> and no \<open>>\<close> and reads back as a text. The escaping rule is the
  same on texts of any code units: no \<open><\<close> (\<open>0x3C\<close>) and no \<open>>\<close> (\<open>0x3E\<close>) is left.
\<close>

theorem escHTML_escapes:
  "escHTML Null = Inr [] \<and> escHTML Undefined = Inr [] \<and> escHTML (Str []) = Inr []
   \<and> escHTML (Str s) = Inr (text_innerHTML s)
   \<and> CHR ''<'' \<notin> set (text_innerHTML s) \<and> CHR ''>'' \<notin> set (text_innerHTML s)
   \<and> parse_text (text_innerHTML s) = Some s
   \<and> text_innerHTML [CHR 0x22, CHR 0x27] = [CHR 0x22, CHR 0x27]
   \<and> (\<not> truthy f \<longrightarrow> escHTML f = Inr [])
   \<and> (truthy v \<and> to_string v = Inr t \<longrightarrow> escHTML v = Inr (text_innerHTML t))
   \<and> (escHTML x = Inl e) = (to_string x = Inl e)
   \<and> (escHTML y = Inr h \<longrightarrow>
         CHR ''<'' \<notin> set h \<and> CHR ''>'' \<notin> set h \<and> (\<exists>t'. parse_text h = Some t'))
   \<and> 0x3C \<notin> set (units_innerHTML us) \<and> 0x3E \<notin> set (units_innerHTML us)
   \<and> units_innerHTML (map of_char s) = map of_char (text_innerHTML s)"
proof -
  have e: "escHTML (Str s) = Inr (text_innerHTML s)"
    by (cases s) (simp_all add: escHTML_def js_or_def text_innerHTML_def)
  have q: "text_innerHTML [CHR 0x22, CHR 0x27] = [CHR 0x22, CHR 0x27]"
    by (simp add: text_innerHTML_def escape_char_def)
  have v: "escHTML v = Inr (text_innerHTML t)" if "truthy v" "to_string v = Inr t"
    using that by (simp add: escHTML_truthy)
  have x: "(escHTML x = Inl e) = (to_string x = Inl e)"
  proof (cases "truthy x")
    case True
    then show ?thesis by (cases "to_string x") (simp_all add: escHTML_truthy)
  next
    case False
    then show ?thesis using no_text_truthy[of x e] by (auto simp: escHTML_falsy)
  qed
  show ?thesis
    using text_innerHTML_no_angle[of s] parse_text_innerHTML[of s] e q v x
      escHTML_falsy[of f] escHTML_result[of y h]
      escHTML_falsy[of Null] escHTML_falsy[of Undefined] escHTML_falsy[of "Str []"]
      units_innerHTML_no_angle[of us] units_innerHTML_of_char[of s]
    by simp
qed

text \<open>
  The theorem of C10 at a text of markup, at the number 0, at a list and at an object that
  has no text.
\<close>

theorem escHTML_escapes_witness:
  \<open>\<not> truthy (Num 0) \<and> escHTML (Num 0) = Inr []
   \<and> escHTML (Str ''<b>Tom & "Jerry"</b>'') = Inr ''&lt;b&gt;Tom &amp; "Jerry"&lt;/b&gt;''
   \<and> truthy (Arr [Str ''<i>'', Null, Num 12]) \<and> to_string (Arr [Str ''<i>'', Null, Num 12]) = Inr ''<i>,,12''
   \<and> escHTML (Arr [Str ''<i>'', Null, Num 12]) = Inr ''&lt;i&gt;,,12''
   \<and> to_string no_text = Inl TypeError \<and> escHTML no_text = Inl TypeError
   \<and> CHR ''<'' \<notin> set ''&lt;i&gt;,,12'' \<and> CHR ''>'' \<notin> set ''&lt;i&gt;,,12''
   \<and> (\<exists>t'. parse_text ''&lt;i&gt;,,12'' = Some t')\<close>
proof -
  have n: "to_string (Arr [Str ''<i>'', Null, Num 12]) = Inr ''<i>,,12''"
    by (simp add: int_to_string_def nat_to_string.simps[of 12] nat_to_string.simps[of "Suc 0"]
          digit_char_def)
  have h: "text_innerHTML ''<i>,,12'' = ''&lt;i&gt;,,12''"
    by (simp add: text_innerHTML_def escape_char_def)
  have m: \<open>text_innerHTML ''<b>Tom & "Jerry"</b>'' = ''&lt;b&gt;Tom &amp; "Jerry"&lt;/b&gt;''\<close>
    by (simp add: text_innerHTML_def escape_char_def)
  from escHTML_escapes[of \<open>''<b>Tom & "Jerry"</b>''\<close> "Num 0" "Arr [Str ''<i>'', Null, Num 12]"
      "''<i>,,12''" no_text TypeError "Arr [Str ''<i>'', Null, Num 12]" "''&lt;i&gt;,,12''"] n h m
  show ?thesis by (simp add: no_text_def)
qed

text \<open>
  C10 as stated fails: it promises an escaped text for every input. An object that has a
  property of its own named \<open>toString\<close>, such as the JSON text \<open>{"toString": 1}\<close>, is
  truthy and has no text, so the assignment to \<open>textContent\<close> throws.
\<close>

theorem escHTML_no_text:
  \<open>truthy (Obj [(''toString'', Num 1)])
   \<and> to_string (Obj [(''toString'', Num 1)]) = Inl TypeError
   \<and> escHTML (Obj [(''toString'', Num 1)]) = Inl TypeError\<close>
  by (simp add: escHTML_def js_or_def)


section \<open>One authenticated call\<close>

lemma map_of_assign: "map_of (assign k v ps) k = Some v"
  by (induction ps) auto

lemma header_set_authorization:
  "header ''Authorization'' \<lparr>req_url = u, req_options = set_authorization t opts\<rparr> = Some (bearer t)"
  by (simp add: header_def set_authorization_def map_of_assign)

lemma set_authorization_keeps:
  "opt_body (set_authorization t opts) = opt_body opts"
  "opt_method (set_authorization t opts) = opt_method opts"
  by (simp_all add: set_authorization_def)

lemma first_options_keeps:
  "opt_body (first_options s opts) = opt_body opts"
  "opt_method (first_options s opts) = opt_method opts"
  by (simp_all add: first_options_def Let_def set_authorization_def)

text \<open>A refresh with a credential held: one request, and the session it leaves.\<close>

lemma refreshToken_held:
  assumes "al_refresh (localStorage w) = Some r" and "r \<noteq> []"
  shows "sent (snd (refreshToken net w)) = sent w @ [refresh_request r]"
    and "fst (refreshToken net w) = refresh_succeeds (net (sent w @ [refresh_request r]))"
    and "\<not> refresh_succeeds (net (sent w @ [refresh_request r])) \<Longrightarrow>
           localStorage (snd (refreshToken net w)) = \<lparr>al_access = None, al_refresh = None, al_user = None\<rparr>"
    and "refresh_succeeds (net (sent w @ [refresh_request r])) \<Longrightarrow>
           al_access (localStorage (snd (refreshToken net w)))
             = Some (new_access (net (sent w @ [refresh_request r])))"
  using assms
  by (auto simp: refreshToken_def getRefresh_def fetch_def cleared_def clear_def refresh_succeeds_def
        stored_credentials_def new_access_def Let_def
      split: outcome.splits option.splits sum.splits)

lemma authFetch_rejected:
  assumes "net (sent w @ [\<lparr>req_url = u, req_options = first_options (localStorage w) opts\<rparr>]) = Rejected"
  shows "authFetch net u opts w =
           (Inl FetchFailed,
            w\<lparr>sent := sent w @ [\<lparr>req_url = u, req_options = first_options (localStorage w) opts\<rparr>]\<rparr>)"
  using assms by (simp add: authFetch_def fetch_def Let_def)

lemma authFetch_plain:
  assumes "net (sent w @ [\<lparr>req_url = u, req_options = first_options (localStorage w) opts\<rparr>]) = Response res"
    and "status res \<noteq> 401 \<or> \<not> held (al_refresh (localStorage w))"
  shows "authFetch net u opts w =
           (Inr res,
            w\<lparr>sent := sent w @ [\<lparr>req_url = u, req_options = first_options (localStorage w) opts\<rparr>]\<rparr>)"
  using assms by (auto simp add: authFetch_def fetch_def Let_def getRefresh_def)

lemma authFetch_refresh_failed:
  assumes "net (sent w @ [q1]) = Response res" and "status res = 401"
    and "al_refresh (localStorage w) = Some r" and "r \<noteq> []"
    and "q1 = \<lparr>req_url = u, req_options = first_options (localStorage w) opts\<rparr>"
    and "\<not> refresh_succeeds (net (sent w @ [q1, refresh_request r]))"
  shows "authFetch net u opts w =
           (Inr res, \<lparr>localStorage = \<lparr>al_access = None, al_refresh = None, al_user = None\<rparr>,
                      sent = sent w @ [q1, refresh_request r]\<rparr>)"
proof -
  let ?w1 = "w\<lparr>sent := sent w @ [q1]\<rparr>"
  have h: "al_refresh (localStorage ?w1) = Some r" using assms(3) by simp
  obtain b w2 where rt: "refreshToken net ?w1 = (b, w2)" by (cases "refreshToken net ?w1")
  have "\<not> b" using refreshToken_held(2)[OF h assms(4), of net] rt assms(6) by simp
  moreover have "sent w2 = sent w @ [q1, refresh_request r]"
    using refreshToken_held(1)[OF h assms(4), of net] rt by simp
  moreover have "localStorage w2 = \<lparr>al_access = None, al_refresh = None, al_user = None\<rparr>"
    using refreshToken_held(3)[OF h assms(4), of net] rt assms(6) by simp
  ultimately show ?thesis
    using assms(1-5) rt by (simp add: authFetch_def fetch_def Let_def getRefresh_def held_def)
qed

lemma authFetch_refreshed:
  assumes "net (sent w @ [q1]) = Response res" and "status res = 401"
    and "al_refresh (localStorage w) = Some r" and "r \<noteq> []"
    and "q1 = \<lparr>req_url = u, req_options = first_options (localStorage w) opts\<rparr>"
    and "refresh_succeeds (net (sent w @ [q1, refresh_request r]))"
    and "q3 = \<lparr>req_url = u,
               req_options = set_authorization (Some (new_access (net (sent w @ [q1, refresh_request r]))))
                               (first_options (localStorage w) opts)\<rparr>"
  shows "sent (snd (authFetch net u opts w)) = sent w @ [q1, refresh_request r, q3]"
    and "fst (authFetch net u opts w) =
           (case net (sent w @ [q1, refresh_request r, q3]) of
              Rejected \<Rightarrow> Inl FetchFailed | Response res2 \<Rightarrow> Inr res2)"
    and "al_access (localStorage (snd (authFetch net u opts w)))
           = Some (new_access (net (sent w @ [q1, refresh_request r])))"
proof -
  let ?w1 = "w\<lparr>sent := sent w @ [q1]\<rparr>"
  have h: "al_refresh (localStorage ?w1) = Some r" using assms(3) by simp
  obtain b w2 where rt: "refreshToken net ?w1 = (b, w2)" by (cases "refreshToken net ?w1")
  have b: "b" using refreshToken_held(2)[OF h assms(4), of net] rt assms(6) by simp
  have s2: "sent w2 = sent w @ [q1, refresh_request r]"
    using refreshToken_held(1)[OF h assms(4), of net] rt by simp
  have a2: "al_access (localStorage w2) = Some (new_access (net (sent w @ [q1, refresh_request r])))"
    using refreshToken_held(4)[OF h assms(4), of net] rt assms(6) by simp
  show "sent (snd (authFetch net u opts w)) = sent w @ [q1, refresh_request r, q3]"
    using assms(1-5,7) rt b s2 a2
    by (simp add: authFetch_def fetch_def Let_def getRefresh_def getAccess_def held_def
          split: outcome.splits)
  show "fst (authFetch net u opts w) =
           (case net (sent w @ [q1, refresh_request r, q3]) of
              Rejected \<Rightarrow> Inl FetchFailed | Response res2 \<Rightarrow> Inr res2)"
    using assms(1-5,7) rt b s2 a2
    by (simp add: authFetch_def fetch_def Let_def getRefresh_def getAccess_def held_def
          split: outcome.splits)
  show "al_access (localStorage (snd (authFetch net u opts w)))
           = Some (new_access (net (sent w @ [q1, refresh_request r])))"
    using assms(1-5,7) rt b s2 a2
    by (simp add: authFetch_def fetch_def Let_def getRefresh_def getAccess_def held_def
          split: outcome.splits)
qed

lemma issued_append: "sent w' = sent w @ qs \<Longrightarrow> issued w w' = qs"
  by (simp add: issued_def)

text \<open>What one call sends: the request, then at most the refresh, then at most the retry.\<close>

lemma authFetch_sent:
  obtains qs where
    "sent (snd (authFetch net u opts w))
       = sent w @ \<lparr>req_url = u, req_options = first_options (localStorage w) opts\<rparr> # qs"
    "qs = [] \<or> (\<exists>r. qs = [refresh_request r])
      \<or> (\<exists>r q3. qs = [refresh_request r, q3] \<and> req_url q3 = u
                 \<and> opt_body (req_options q3) = opt_body opts)"
proof (cases "net (sent w @ [\<lparr>req_url = u, req_options = first_options (localStorage w) opts\<rparr>])")
  case Rejected
  from authFetch_rejected[of net w u opts] Rejected that[of "[]"] show ?thesis by simp
next
  case (Response res)
  let ?q1 = "\<lparr>req_url = u, req_options = first_options (localStorage w) opts\<rparr>"
  show ?thesis
  proof (cases "status res = 401 \<and> held (al_refresh (localStorage w))")
    case False
    from authFetch_plain[of net w u opts res] Response False that[of "[]"] show ?thesis by auto
  next
    case True
    then obtain r where r: "al_refresh (localStorage w) = Some r" "r \<noteq> []"
      by (auto simp: held_def split: option.splits)
    from True have st: "status res = 401" by simp
    show ?thesis
    proof (cases "refresh_succeeds (net (sent w @ [?q1, refresh_request r]))")
      case False
      from authFetch_refresh_failed[OF Response st r refl False] that[of "[refresh_request r]"]
      show ?thesis by auto
    next
      case True
      let ?q3 = "\<lparr>req_url = u,
                  req_options = set_authorization (Some (new_access (net (sent w @ [?q1, refresh_request r]))))
                                  (first_options (localStorage w) opts)\<rparr>"
      from authFetch_refreshed(1)[OF Response st r refl True refl] that[of "[refresh_request r, ?q3]"]
      show ?thesis by (auto simp add: set_authorization_keeps first_options_keeps)
    qed
  qed
qed

text \<open>
  C2. When the first response is a 401 and a refresh credential is held, the call makes
  one refresh attempt. When the refresh goes through (\<open>refreshToken\<close> stored the new
  credentials and returned \<open>true\<close>) the call sends the request once more, with the same
  method and body and with \<open>Authorization\<close> set to the access credential the refresh
  stored, and returns the outcome of that request; when the refresh does not go through
  it sends nothing more and returns the first response.

  Whatever the session, the options and the answers of the network, the requests of one
  call are the request itself, then at most one refresh request, then at most one
  repetition of the request: the original request goes out at most twice and the refresh
  at most once.
\<close>

theorem authFetch_refresh_once_retry_once:
  "(let q1 = \<lparr>req_url = u, req_options = first_options (localStorage w) opts\<rparr>;
        w' = snd (authFetch net u opts w);
        again = \<lparr>req_url = u,
                 req_options = set_authorization (al_access (localStorage w'))
                                 (first_options (localStorage w) opts)\<rparr>
    in (net (sent w @ [q1]) = Response res \<and> status res = 401
          \<and> al_refresh (localStorage w) = Some r \<and> r \<noteq> [] \<longrightarrow>
            (let a2 = net (sent w @ [q1, refresh_request r]);
                 q3 = \<lparr>req_url = u,
                       req_options = set_authorization (Some (new_access a2))
                                       (first_options (localStorage w) opts)\<rparr>
             in fst (refreshToken net (w\<lparr>sent := sent w @ [q1]\<rparr>)) = refresh_succeeds a2
              \<and> (if refresh_succeeds a2
                 then issued w w' = [q1, refresh_request r, q3]
                    \<and> al_access (localStorage w') = Some (new_access a2)
                    \<and> header ''Authorization'' q3 = Some (''Bearer '' @ new_access a2)
                    \<and> opt_method (req_options q3) = opt_method opts
                    \<and> opt_body (req_options q3) = opt_body opts
                    \<and> fst (authFetch net u opts w)
                        = (case net (sent w @ [q1, refresh_request r, q3]) of
                             Rejected \<Rightarrow> Inl FetchFailed | Response res2 \<Rightarrow> Inr res2)
                 else issued w w' = [q1, refresh_request r]
                    \<and> fst (authFetch net u opts w) = Inr res
                    \<and> localStorage w' = \<lparr>al_access = None, al_refresh = None, al_user = None\<rparr>)))
       \<and> sent w' = sent w @ issued w w'
       \<and> (issued w w' = [q1]
          \<or> (\<exists>r'. al_refresh (localStorage w) = Some r'
                 \<and> (issued w w' = [q1, refresh_request r']
                    \<or> issued w w' = [q1, refresh_request r', again])))
       \<and> opt_method (req_options again) = opt_method opts
       \<and> opt_body (req_options again) = opt_body opts
       \<and> length (issued w w') \<le> 3)"
proof -
  define q1 where q1_def: "q1 = \<lparr>req_url = u, req_options = first_options (localStorage w) opts\<rparr>"
  define w' where w'_def: "w' = snd (authFetch net u opts w)"
  define again where again_def:
    "again = \<lparr>req_url = u,
               req_options = set_authorization (al_access (localStorage w'))
                               (first_options (localStorage w) opts)\<rparr>"
  have rt: "fst (refreshToken net (w\<lparr>sent := sent w @ [q1]\<rparr>))
              = refresh_succeeds (net (sent w @ [q1, refresh_request r]))"
    if "al_refresh (localStorage w) = Some r" "r \<noteq> []"
    using refreshToken_held(2)[of "w\<lparr>sent := sent w @ [q1]\<rparr>" r net] that by simp
  have first: "if refresh_succeeds (net (sent w @ [q1, refresh_request r]))
      then issued w w' = [q1, refresh_request r,
                          \<lparr>req_url = u,
                           req_options = set_authorization
                                           (Some (new_access (net (sent w @ [q1, refresh_request r]))))
                                           (first_options (localStorage w) opts)\<rparr>]
         \<and> al_access (localStorage w') = Some (new_access (net (sent w @ [q1, refresh_request r])))
         \<and> fst (authFetch net u opts w)
             = (case net (sent w @ [q1, refresh_request r,
                           \<lparr>req_url = u,
                            req_options = set_authorization
                                            (Some (new_access (net (sent w @ [q1, refresh_request r]))))
                                            (first_options (localStorage w) opts)\<rparr>]) of
                  Rejected \<Rightarrow> Inl FetchFailed | Response res2 \<Rightarrow> Inr res2)
      else issued w w' = [q1, refresh_request r]
         \<and> fst (authFetch net u opts w) = Inr res
         \<and> localStorage w' = \<lparr>al_access = None, al_refresh = None, al_user = None\<rparr>"
    if a1: "net (sent w @ [q1]) = Response res" "status res = 401"
      "al_refresh (localStorage w) = Some r" "r \<noteq> []"
  proof (cases "refresh_succeeds (net (sent w @ [q1, refresh_request r]))")
    case True
    show ?thesis
      unfolding w'_def
      using True authFetch_refreshed[OF a1 q1_def True refl]
      by (simp add: issued_append)
  next
    case False
    show ?thesis
      unfolding w'_def
      using False authFetch_refresh_failed[OF a1 q1_def False]
      by (simp add: issued_append)
  qed
  have shape: "issued w w' = [q1]
          \<or> (\<exists>r'. al_refresh (localStorage w) = Some r'
                 \<and> (issued w w' = [q1, refresh_request r']
                    \<or> issued w w' = [q1, refresh_request r', again]))"
  proof (cases "net (sent w @ [q1])")
    case Rejected
    then show ?thesis
      unfolding w'_def using authFetch_rejected[of net w u opts]
      by (simp add: q1_def issued_def)
  next
    case (Response res')
    show ?thesis
    proof (cases "status res' = 401 \<and> held (al_refresh (localStorage w))")
      case False
      then show ?thesis
        unfolding w'_def using authFetch_plain[of net w u opts res'] Response
        by (auto simp: q1_def issued_def)
    next
      case True
      then obtain r' where r': "al_refresh (localStorage w) = Some r'" "r' \<noteq> []"
        by (auto simp: held_def split: option.splits)
      from True have st: "status res' = 401" by simp
      show ?thesis
      proof (cases "refresh_succeeds (net (sent w @ [q1, refresh_request r']))")
        case False
        from authFetch_refresh_failed[OF Response st r' q1_def False] r'(1)
        show ?thesis unfolding w'_def by (simp add: issued_def)
      next
        case True
        from authFetch_refreshed(1,3)[OF Response st r' q1_def True refl] r'(1)
        show ?thesis unfolding w'_def again_def by (simp add: issued_def w'_def)
      qed
    qed
  qed
  have grow: "sent w' = sent w @ issued w w'"
  proof -
    obtain qs where "sent w' = sent w @ q1 # qs"
      unfolding w'_def q1_def by (rule authFetch_sent)
    then show ?thesis by (simp add: issued_def)
  qed
  have len: "length (issued w w') \<le> 3" using shape by auto
  show ?thesis
    unfolding Let_def q1_def[symmetric] w'_def[symmetric] again_def[symmetric]
    using first rt grow len shape
    by (simp add: header_set_authorization bearer_def set_authorization_keeps first_options_keeps
          again_def)
qed

text \<open>
  The theorem of C2 on a session whose access credential has expired: the first answer
  is a 401, the refresh answers with a new credential, and the request goes out again
  with it.
\<close>

theorem authFetch_refresh_once_retry_once_witness:
  "expired_net (sent signed_in @ [\<lparr>req_url = ''/api/masjids/'',
                                   req_options = first_options (localStorage signed_in) sample_options\<rparr>])
     = Response \<lparr>status = 401, json = None\<rparr>
   \<and> status \<lparr>status = 401, json = None\<rparr> = 401
   \<and> al_refresh (localStorage signed_in) = Some ''refresh-1'' \<and> ''refresh-1'' \<noteq> []
   \<and> issued signed_in (snd (authFetch expired_net ''/api/masjids/'' sample_options signed_in))
       = [\<lparr>req_url = ''/api/masjids/'',
           req_options = \<lparr>opt_method = Some ''POST'',
                          opt_headers = Some [(''Content-Type'', ''application/json''),
                                              (''Authorization'', ''Bearer access-1'')],
                          opt_body = Some (MasjidBody ''Al-Noor'' Null False)\<rparr>\<rparr>,
          refresh_request ''refresh-1'',
          \<lparr>req_url = ''/api/masjids/'',
           req_options = \<lparr>opt_method = Some ''POST'',
                          opt_headers = Some [(''Content-Type'', ''application/json''),
                                              (''Authorization'', ''Bearer access-2'')],
                          opt_body = Some (MasjidBody ''Al-Noor'' Null False)\<rparr>\<rparr>]
   \<and> al_access (localStorage (snd (authFetch expired_net ''/api/masjids/'' sample_options signed_in)))
       = Some ''access-2''
   \<and> fst (authFetch expired_net ''/api/masjids/'' sample_options signed_in)
       = Inr \<lparr>status = 200, json = Some (Obj [])\<rparr>"
  using authFetch_refresh_once_retry_once[of "''/api/masjids/''" signed_in sample_options expired_net
      "\<lparr>status = 401, json = None\<rparr>" "''refresh-1''"]
  by (simp add: Let_def expired_net_def signed_in_def sample_options_def post_def first_options_def
        set_authorization_def bearer_def held_def getAccess_def refresh_succeeds_def new_access_def
        stored_credentials_def ok_def opt_prop_def refresh_request_def)

text \<open>
  A refresh answered with a credential that has no text does not go through: storing it
  throws, the session is cleared, and the call returns the first response without a
  repetition.
\<close>

lemma authFetch_credential_without_text:
  "\<not> refresh_succeeds (unreadable_net [q, q'])
   \<and> fst (authFetch unreadable_net ''/api/masjids/'' sample_options signed_in)
       = Inr \<lparr>status = 401, json = None\<rparr>
   \<and> localStorage (snd (authFetch unreadable_net ''/api/masjids/'' sample_options signed_in))
       = \<lparr>al_access = None, al_refresh = None, al_user = None\<rparr>
   \<and> length (sent (snd (authFetch unreadable_net ''/api/masjids/'' sample_options signed_in))) = 2"
proof -
  let ?q1 = "\<lparr>req_url = ''/api/masjids/'',
               req_options = first_options (localStorage signed_in) sample_options\<rparr>"
  have n: "\<not> refresh_succeeds (unreadable_net [a, b])" for a b
    by (simp add: refresh_succeeds_def stored_credentials_def unreadable_net_def ok_def no_text_def)
  have a1: "unreadable_net (sent signed_in @ [?q1]) = Response \<lparr>status = 401, json = None\<rparr>"
    by (simp add: unreadable_net_def signed_in_def)
  have r: "al_refresh (localStorage signed_in) = Some ''refresh-1''"
    by (simp add: signed_in_def)
  have n2: "\<not> refresh_succeeds (unreadable_net (sent signed_in @ [?q1, refresh_request ''refresh-1'']))"
    using n by (simp add: signed_in_def)
  from authFetch_refresh_failed[OF a1 _ r _ refl n2] n
  show ?thesis by (simp add: signed_in_def)
qed

text \<open>
  C3. When the first response is a 401, a refresh credential is held and the refresh
  attempt fails, by a response that is not \<open>ok\<close> or by no response at all, the session
  is gone: access credential, refresh credential and cached user are all removed, the
  client counts as logged out, and the caller gets the first 401 response as it came.
  Nothing is sent after the refresh.
\<close>

theorem authFetch_failed_refresh_ends_session:
  assumes "q1 = \<lparr>req_url = u, req_options = first_options (localStorage w) opts\<rparr>"
    and "net (sent w @ [q1]) = Response res" and "status res = 401"
    and "al_refresh (localStorage w) = Some r" and "r \<noteq> []"
    and "net (sent w @ [q1, refresh_request r]) = Rejected
         \<or> (\<exists>res2. net (sent w @ [q1, refresh_request r]) = Response res2 \<and> \<not> ok res2)"
  shows "fst (authFetch net u opts w) = Inr res
       \<and> localStorage (snd (authFetch net u opts w))
           = \<lparr>al_access = None, al_refresh = None, al_user = None\<rparr>
       \<and> \<not> isLoggedIn (localStorage (snd (authFetch net u opts w)))
       \<and> issued w (snd (authFetch net u opts w)) = [q1, refresh_request r]"
proof -
  have "\<not> refresh_succeeds (net (sent w @ [q1, refresh_request r]))"
    using assms(6) by (auto simp: refresh_succeeds_def stored_credentials_def)
  from authFetch_refresh_failed[OF assms(2-5) assms(1) this]
  show ?thesis by (simp add: issued_def isLoggedIn_def getAccess_def held_def)
qed

text \<open>The theorem of C3 on a network that answers 401 to the request and to the refresh.\<close>

theorem authFetch_failed_refresh_ends_session_witness:
  "refusing_net (sent signed_in @ [\<lparr>req_url = ''/api/masjids/'',
                                    req_options = first_options (localStorage signed_in) sample_options\<rparr>])
     = Response \<lparr>status = 401, json = None\<rparr>
   \<and> al_refresh (localStorage signed_in) = Some ''refresh-1'' \<and> ''refresh-1'' \<noteq> []
   \<and> refusing_net (sent signed_in @ [\<lparr>req_url = ''/api/masjids/'',
                                      req_options = first_options (localStorage signed_in) sample_options\<rparr>,
                                     refresh_request ''refresh-1''])
       = Response \<lparr>status = 401, json = None\<rparr>
   \<and> \<not> ok \<lparr>status = 401, json = None\<rparr>
   \<and> fst (authFetch refusing_net ''/api/masjids/'' sample_options signed_in)
       = Inr \<lparr>status = 401, json = None\<rparr>
   \<and> localStorage (snd (authFetch refusing_net ''/api/masjids/'' sample_options signed_in))
       = \<lparr>al_access = None, al_refresh = None, al_user = None\<rparr>
   \<and> length (issued signed_in (snd (authFetch refusing_net ''/api/masjids/'' sample_options signed_in))) = 2"
  using authFetch_failed_refresh_ends_session[of _ "''/api/masjids/''" signed_in sample_options
      refusing_net "\<lparr>status = 401, json = None\<rparr>" "''refresh-1''", OF refl]
  by (simp add: refusing_net_def signed_in_def ok_def)

text \<open>
  C7. When the first request meets no response, the call rejects with that failure;
  the request is the only one sent, so there is no refresh and no retry, and the
  session is left as it was.
\<close>

theorem authFetch_transport_failure:
  assumes "net (sent w @ [\<lparr>req_url = u, req_options = first_options (localStorage w) opts\<rparr>]) = Rejected"
  shows "fst (authFetch net u opts w) = Inl FetchFailed
       \<and> issued w (snd (authFetch net u opts w))
           = [\<lparr>req_url = u, req_options = first_options (localStorage w) opts\<rparr>]
       \<and> localStorage (snd (authFetch net u opts w)) = localStorage w"
  using assms authFetch_rejected[of net w u opts] by (simp add: issued_def)

text \<open>The theorem of C7 on a network that is down.\<close>

theorem authFetch_transport_failure_witness:
  "dead_net (sent signed_in @ [\<lparr>req_url = ''/api/signals/'',
                                req_options = first_options (localStorage signed_in) sample_options\<rparr>])
     = Rejected
   \<and> fst (authFetch dead_net ''/api/signals/'' sample_options signed_in) = Inl FetchFailed
   \<and> length (issued signed_in (snd (authFetch dead_net ''/api/signals/'' sample_options signed_in))) = 1
   \<and> localStorage (snd (authFetch dead_net ''/api/signals/'' sample_options signed_in))
       = localStorage signed_in"
  using authFetch_transport_failure[of dead_net signed_in "''/api/signals/''" sample_options]
  by (simp add: dead_net_def)



section \<open>The requests of a report\<close>

lemma authFetch_carries:
  assumes "authFetch net u (post b) w = (r, w')"
  obtains qs where "sent w' = sent w @ qs" "carries b qs"
proof -
  obtain qs where qs:
    "sent (snd (authFetch net u (post b) w))
       = sent w @ \<lparr>req_url = u, req_options = first_options (localStorage w) (post b)\<rparr> # qs"
    "qs = [] \<or> (\<exists>r. qs = [refresh_request r])
      \<or> (\<exists>r q3. qs = [refresh_request r, q3] \<and> req_url q3 = u
                 \<and> opt_body (req_options q3) = opt_body (post b))"
    by (rule authFetch_sent)
  have "carries b (\<lparr>req_url = u, req_options = first_options (localStorage w) (post b)\<rparr> # qs)"
    using qs(2) by (auto simp: carries_def first_options_keeps post_def refresh_request_def)
  then show ?thesis using that qs(1) assms by simp
qed

lemma set_map_filter: "set (List.map_filter f xs) = {y. \<exists>x\<in>set xs. f x = Some y}"
  by (induction xs) (auto simp: List.map_filter_def)

lemma map_filter_append: "List.map_filter f (xs @ ys) = List.map_filter f xs @ List.map_filter f ys"
  by (simp add: List.map_filter_def)

lemma carries_elem:
  assumes "carries b qs" and "q \<in> set qs"
  shows "opt_body (req_options q) = Some b \<or> (\<exists>r. opt_body (req_options q) = Some (RefreshBody r))"
proof -
  from assms have "opt_body (req_options q) = Some b \<or> is_refresh q"
    by (simp add: carries_def list_all_iff)
  then show ?thesis
    by (auto split: option.splits body.splits)
qed

lemma carries_venue_flag:
  assumes "carries b qs" and "q \<in> set qs" and "venue_flag q = Some a"
  shows "\<exists>n d. b = MasjidBody n d a"
  using carries_elem[OF assms(1,2)] assms(3) by (cases b) auto

lemma carries_signal_kind:
  assumes "carries b qs" and "q \<in> set qs" and "signal_kind q = Some k"
  shows "\<exists>m d usr. b = SignalBody m (fst k) (snd k) d usr"
  using carries_elem[OF assms(1,2)] assms(3) by (cases b) auto

lemma carries_venue_flags:
  assumes "carries b qs"
  shows "set (venue_flags qs) \<subseteq> (case b of MasjidBody n d a \<Rightarrow> {a} | _ \<Rightarrow> {})"
    and "venue_flag (hd qs) = (case b of MasjidBody n d a \<Rightarrow> Some a | _ \<Rightarrow> None)"
proof -
  show "set (venue_flags qs) \<subseteq> (case b of MasjidBody n d a \<Rightarrow> {a} | _ \<Rightarrow> {})"
  proof
    fix a assume "a \<in> set (venue_flags qs)"
    then obtain q where "q \<in> set qs" "venue_flag q = Some a"
      by (auto simp: venue_flags_def set_map_filter)
    from carries_venue_flag[OF assms this] show "a \<in> (case b of MasjidBody n d a \<Rightarrow> {a} | _ \<Rightarrow> {})"
      by auto
  qed
  from assms have "opt_body (req_options (hd qs)) = Some b" by (simp add: carries_def)
  then show "venue_flag (hd qs) = (case b of MasjidBody n d a \<Rightarrow> Some a | _ \<Rightarrow> None)"
    by (cases b) simp_all
qed

lemma carries_signal_kinds:
  assumes "carries b qs"
  shows "set (signal_kinds qs) \<subseteq> (case b of SignalBody m t src d usr \<Rightarrow> {(t, src)} | _ \<Rightarrow> {})"
    and "signal_kind (hd qs) = (case b of SignalBody m t src d usr \<Rightarrow> Some (t, src) | _ \<Rightarrow> None)"
proof -
  show "set (signal_kinds qs) \<subseteq> (case b of SignalBody m t src d usr \<Rightarrow> {(t, src)} | _ \<Rightarrow> {})"
  proof
    fix k assume "k \<in> set (signal_kinds qs)"
    then obtain q where "q \<in> set qs" "signal_kind q = Some k"
      by (auto simp: signal_kinds_def set_map_filter)
    from carries_signal_kind[OF assms this]
    show "k \<in> (case b of SignalBody m t src d usr \<Rightarrow> {(t, src)} | _ \<Rightarrow> {})"
      by auto
  qed
  from assms have "opt_body (req_options (hd qs)) = Some b" by (simp add: carries_def)
  then show "signal_kind (hd qs) = (case b of SignalBody m t src d usr \<Rightarrow> Some (t, src) | _ \<Rightarrow> None)"
    by (cases b) simp_all
qed

lemma carries_nonempty: "carries b qs \<Longrightarrow> qs \<noteq> []"
  by (simp add: carries_def)

lemma signal_kinds_has:
  "qs \<noteq> [] \<Longrightarrow> signal_kind (hd qs) = Some k \<Longrightarrow> signal_kinds qs \<noteq> []"
  by (cases qs) (simp_all add: signal_kinds_def List.map_filter_def)

text \<open>
  How far a report gets: nothing is sent; or the venue only; or the venue and its
  location; or these and the signal; or these and the link to the admin. Only the last
  two can end in success.
\<close>

lemma submit_trace:
  obtains
    (invalid) "submitMasjidReport isAdmin net f w = (Invalid, w)"
  | (venue) e w1 qs1 n d where
      "submitMasjidReport isAdmin net f w = (Failed e, w1)"
      "sent w1 = sent w @ qs1" "carries (MasjidBody n d isAdmin) qs1"
  | (location) e w2 qs1 qs2 n d m la lo ci co re where
      "submitMasjidReport isAdmin net f w = (Failed e, w2)"
      "sent w2 = sent w @ qs1 @ qs2" "carries (MasjidBody n d isAdmin) qs1"
      "carries (LocationBody m la lo ci co re) qs2"
  | (signal) r w3 qs1 qs2 qs3 n d m la lo ci co re un where
      "submitMasjidReport isAdmin net f w = (r, w3)" "r \<noteq> Invalid"
      "sent w3 = sent w @ qs1 @ qs2 @ qs3" "carries (MasjidBody n d isAdmin) qs1"
      "carries (LocationBody m la lo ci co re) qs2" "carries (signal_body isAdmin m un) qs3"
  | (link) r w4 qs1 qs2 qs3 qs4 n d m la lo ci co re un where
      "submitMasjidReport isAdmin net f w = (r, w4)" "r \<noteq> Invalid"
      "sent w4 = sent w @ qs1 @ qs2 @ qs3 @ qs4" "carries (MasjidBody n d isAdmin) qs1"
      "carries (LocationBody m la lo ci co re) qs2" "carries (signal_body isAdmin m un) qs3"
      "carries (AdminLinkBody un m False) qs4"
proof (cases "trim (report_name f) = [] \<or> trim (report_city f) = [] \<or> report_country f = []
              \<or> report_lat f = NaN \<or> report_lng f = NaN")
  case True
  then have "submitMasjidReport isAdmin net f w = (Invalid, w)"
    by (simp add: submitMasjidReport_def Let_def)
  then show ?thesis by (rule invalid)
next
  case valid: False
  define b1 where "b1 = MasjidBody (trim (report_name f)) (or_null (trim (report_desc f))) isAdmin"
  obtain r1 w1 where c1: "authFetch net ''/api/masjids/'' (post b1) w = (r1, w1)"
    by (cases "authFetch net ''/api/masjids/'' (post b1) w")
  obtain qs1 where q1: "sent w1 = sent w @ qs1" "carries b1 qs1"
    using authFetch_carries[OF c1] by blast
  show ?thesis
  proof (cases "\<exists>masjidRes masjid masjidID. r1 = Inr masjidRes \<and> ok masjidRes
                  \<and> json masjidRes = Some masjid \<and> get_prop masjid ''masjidID'' = Inr masjidID")
    case False
    then have "\<exists>e. submitMasjidReport isAdmin net f w = (Failed e, w1)"
      using valid c1[unfolded b1_def]
      by (auto simp add: submitMasjidReport_def Let_def split: sum.splits option.splits)
    then show ?thesis using venue q1 unfolding b1_def by blast
  next
    case True
    then obtain masjidRes masjid masjidID where m: "r1 = Inr masjidRes" "ok masjidRes"
      "json masjidRes = Some masjid" "get_prop masjid ''masjidID'' = Inr masjidID" by blast
    define b2 where "b2 = LocationBody masjidID (report_lat f) (report_lng f) (trim (report_city f))
                            (report_country f) (or_null (trim (report_region f)))"
    obtain r2 w2 where c2: "authFetch net ''/api/location-records/'' (post b2) w1 = (r2, w2)"
      by (cases "authFetch net ''/api/location-records/'' (post b2) w1")
    obtain qs2 where q2: "sent w2 = sent w1 @ qs2" "carries b2 qs2"
      using authFetch_carries[OF c2] by blast
    show ?thesis
    proof (cases "\<exists>locRes user. r2 = Inr locRes \<and> getUser (localStorage w2) = Inr user")
      case False
      then have "\<exists>e. submitMasjidReport isAdmin net f w = (Failed e, w2)"
        using valid c1[unfolded b1_def] m c2[unfolded b2_def]
        by (auto simp add: submitMasjidReport_def Let_def split: sum.splits option.splits)
      then show ?thesis using location[of _ w2 qs1 qs2] q1 q2 unfolding b1_def b2_def by auto
    next
      case True
      then obtain locRes user where u: "r2 = Inr locRes" "getUser (localStorage w2) = Inr user"
        by blast
      define un where "un = opt_prop user ''username''"
      obtain r3 w3 where
        c3: "authFetch net ''/api/signals/'' (post (signal_body isAdmin masjidID un)) w2 = (r3, w3)"
        by (cases "authFetch net ''/api/signals/'' (post (signal_body isAdmin masjidID un)) w2")
      obtain qs3 where q3: "sent w3 = sent w2 @ qs3" "carries (signal_body isAdmin masjidID un) qs3"
        using authFetch_carries[OF c3] by blast
      show ?thesis
      proof (cases "\<exists>sigRes. r3 = Inr sigRes \<and> isAdmin \<and> truthy un")
        case False
        then have "\<exists>r. submitMasjidReport isAdmin net f w = (r, w3) \<and> r \<noteq> Invalid"
          using valid c1[unfolded b1_def] m c2[unfolded b2_def] u c3[unfolded un_def]
          by (auto simp add: submitMasjidReport_def Let_def un_def split: sum.splits option.splits)
        then show ?thesis
          using signal[of _ w3 qs1 qs2 qs3] q1 q2 q3 unfolding b1_def b2_def by auto
      next
        case True
        then obtain sigRes where g: "r3 = Inr sigRes" "isAdmin" "truthy un" by blast
        obtain r4 w4 where
          c4: "authFetch net ''/api/masjid-admins/'' (post (AdminLinkBody un masjidID False)) w3 = (r4, w4)"
          by (cases "authFetch net ''/api/masjid-admins/'' (post (AdminLinkBody un masjidID False)) w3")
        obtain qs4 where q4: "sent w4 = sent w3 @ qs4" "carries (AdminLinkBody un masjidID False) qs4"
          using authFetch_carries[OF c4] by blast
        have "\<exists>r. submitMasjidReport isAdmin net f w = (r, w4) \<and> r \<noteq> Invalid"
          using valid c1[unfolded b1_def] m c2[unfolded b2_def] u c3[unfolded un_def] g
            c4[unfolded un_def]
          by (auto simp add: submitMasjidReport_def Let_def un_def split: sum.splits option.splits)
        then show ?thesis
          using link[of _ w4 qs1 qs2 qs3 qs4] q1 q2 q3 q4 unfolding b1_def b2_def by auto
      qed
    qed
  qed
qed

lemma submit_invalid_iff:
  "(fst (submitMasjidReport isAdmin net f w) = Invalid) = (\<not> filled f)"
  by (auto simp: submitMasjidReport_def Let_def filled_def
           split: prod.splits sum.splits option.splits)

lemma submit_requests:
  fixes isAdmin net f w
  defines "run \<equiv> submitMasjidReport isAdmin net f w"
  defines "reqs \<equiv> issued w (snd run)"
  defines "kind \<equiv> (if isAdmin then (''ADMIN_VERIFY'', ''ADMIN'') else (''ACTIVE'', ''USER''))"
  shows "sent (snd run) = sent w @ reqs"
    and "set (venue_flags reqs) \<subseteq> {isAdmin}"
    and "set (signal_kinds reqs) \<subseteq> {kind}"
    and "fst run = Invalid \<Longrightarrow> reqs = []"
    and "fst run \<noteq> Invalid \<Longrightarrow> reqs \<noteq> [] \<and> venue_flag (hd reqs) = Some isAdmin"
    and "fst run = Reported \<Longrightarrow> signal_kinds reqs \<noteq> []"
proof -
  have "sent (snd run) = sent w @ reqs \<and> set (venue_flags reqs) \<subseteq> {isAdmin}
      \<and> set (signal_kinds reqs) \<subseteq> {kind} \<and> (fst run = Invalid \<longrightarrow> reqs = [])
      \<and> (fst run \<noteq> Invalid \<longrightarrow> reqs \<noteq> [] \<and> venue_flag (hd reqs) = Some isAdmin)
      \<and> (fst run = Reported \<longrightarrow> signal_kinds reqs \<noteq> [])"
  proof (rule submit_trace[of isAdmin net f w])
    assume "submitMasjidReport isAdmin net f w = (Invalid, w)"
    then show ?thesis
      by (simp add: run_def reqs_def issued_def venue_flags_def signal_kinds_def List.map_filter_def)
  next
    fix e w1 qs1 n d
    assume a: "submitMasjidReport isAdmin net f w = (Failed e, w1)"
      "sent w1 = sent w @ qs1" "carries (MasjidBody n d isAdmin) qs1"
    have r: "reqs = qs1" using a(1,2) by (simp add: reqs_def run_def issued_def)
    show ?thesis
      using a(1,2) carries_venue_flags[OF a(3)] carries_signal_kinds[OF a(3)] carries_nonempty[OF a(3)]
      unfolding r by (simp add: run_def)
  next
    fix e w2 qs1 qs2 n d m la lo ci co re
    assume a: "submitMasjidReport isAdmin net f w = (Failed e, w2)"
      "sent w2 = sent w @ qs1 @ qs2" "carries (MasjidBody n d isAdmin) qs1"
      "carries (LocationBody m la lo ci co re) qs2"
    have r: "reqs = qs1 @ qs2" using a(1,2) by (simp add: reqs_def run_def issued_def)
    show ?thesis
      using a(1,2) carries_venue_flags[OF a(3)] carries_signal_kinds[OF a(3)] carries_nonempty[OF a(3)]
        carries_venue_flags[OF a(4)] carries_signal_kinds[OF a(4)]
      unfolding r by (simp add: run_def venue_flags_def signal_kinds_def map_filter_append)
  next
    fix r' w3 qs1 qs2 qs3 n d m la lo ci co re un
    assume a: "submitMasjidReport isAdmin net f w = (r', w3)" "r' \<noteq> Invalid"
      "sent w3 = sent w @ qs1 @ qs2 @ qs3" "carries (MasjidBody n d isAdmin) qs1"
      "carries (LocationBody m la lo ci co re) qs2" "carries (signal_body isAdmin m un) qs3"
    have r: "reqs = qs1 @ qs2 @ qs3" using a(1,3) by (simp add: reqs_def run_def issued_def)
    have s: "signal_kinds qs3 \<noteq> []"
      using signal_kinds_has[OF carries_nonempty[OF a(6)]] carries_signal_kinds(2)[OF a(6)]
      by (simp add: signal_body_def)
    show ?thesis
      using a(1,2,3) s carries_venue_flags[OF a(4)] carries_signal_kinds[OF a(4)] carries_nonempty[OF a(4)]
        carries_venue_flags[OF a(5)] carries_signal_kinds[OF a(5)]
        carries_venue_flags[OF a(6)] carries_signal_kinds[OF a(6)]
      unfolding r
      by (cases isAdmin)
         (simp_all add: run_def venue_flags_def signal_kinds_def map_filter_append signal_body_def kind_def)
  next
    fix r' w4 qs1 qs2 qs3 qs4 n d m la lo ci co re un
    assume a: "submitMasjidReport isAdmin net f w = (r', w4)" "r' \<noteq> Invalid"
      "sent w4 = sent w @ qs1 @ qs2 @ qs3 @ qs4" "carries (MasjidBody n d isAdmin) qs1"
      "carries (LocationBody m la lo ci co re) qs2" "carries (signal_body isAdmin m un) qs3"
      "carries (AdminLinkBody un m False) qs4"
    have r: "reqs = qs1 @ qs2 @ qs3 @ qs4" using a(1,3) by (simp add: reqs_def run_def issued_def)
    have s: "signal_kinds qs3 \<noteq> []"
      using signal_kinds_has[OF carries_nonempty[OF a(6)]] carries_signal_kinds(2)[OF a(6)]
      by (simp add: signal_body_def)
    show ?thesis
      using a(1,2,3) s carries_venue_flags[OF a(4)] carries_signal_kinds[OF a(4)] carries_nonempty[OF a(4)]
        carries_venue_flags[OF a(5)] carries_signal_kinds[OF a(5)]
        carries_venue_flags[OF a(6)] carries_signal_kinds[OF a(6)]
        carries_venue_flags[OF a(7)] carries_signal_kinds[OF a(7)]
      unfolding r
      by (cases isAdmin)
         (simp_all add: run_def venue_flags_def signal_kinds_def map_filter_append signal_body_def kind_def)
  qed
  then show "sent (snd run) = sent w @ reqs"
    and "set (venue_flags reqs) \<subseteq> {isAdmin}"
    and "set (signal_kinds reqs) \<subseteq> {kind}"
    and "fst run = Invalid \<Longrightarrow> reqs = []"
    and "fst run \<noteq> Invalid \<Longrightarrow> reqs \<noteq> [] \<and> venue_flag (hd reqs) = Some isAdmin"
    and "fst run = Reported \<Longrightarrow> signal_kinds reqs \<noteq> []"
    by simp_all
qed


text \<open>Two reports run to the end: one by a signed-in user, one by a masjid admin.\<close>

lemma trim_samples: "trim '' Al-Noor '' = ''Al-Noor''" "trim ''Leeds'' = ''Leeds''" "trim [] = []"
  by (simp_all add: trim_def is_space_def)

lemma user_run:
  "submitMasjidReport False accepting_net sample_form signed_in =
     (Reported,
      signed_in\<lparr>sent :=
        [\<lparr>req_url = ''/api/masjids/'',
          req_options = \<lparr>opt_method = Some ''POST'',
             opt_headers = Some [(''Content-Type'', ''application/json''),
                                 (''Authorization'', ''Bearer access-1'')],
             opt_body = Some (MasjidBody ''Al-Noor'' Null False)\<rparr>\<rparr>,
         \<lparr>req_url = ''/api/location-records/'',
          req_options = \<lparr>opt_method = Some ''POST'',
             opt_headers = Some [(''Content-Type'', ''application/json''),
                                 (''Authorization'', ''Bearer access-1'')],
             opt_body = Some (LocationBody (Str ''m-1'') (Finite 53) (Finite (- 1)) ''Leeds'' ''UK'' Null)\<rparr>\<rparr>,
         \<lparr>req_url = ''/api/signals/'',
          req_options = \<lparr>opt_method = Some ''POST'',
             opt_headers = Some [(''Content-Type'', ''application/json''),
                                 (''Authorization'', ''Bearer access-1'')],
             opt_body = Some (SignalBody (Str ''m-1'') ''ACTIVE'' ''USER'' CommunityInitialSignal
                                (Some (Str ''amina'')))\<rparr>\<rparr>]\<rparr>)"
  by (simp add: submitMasjidReport_def authFetch_def fetch_def first_options_def
      set_authorization_def bearer_def held_def getAccess_def getRefresh_def getUser_def post_def
      or_null_def signal_body_def trim_samples ok_def opt_prop_def Let_def
      accepting_net_def sample_form_def signed_in_def)

lemma admin_run:
  "submitMasjidReport True accepting_net sample_form admin_in =
     (Reported,
      admin_in\<lparr>sent :=
        [\<lparr>req_url = ''/api/masjids/'',
          req_options = \<lparr>opt_method = Some ''POST'',
             opt_headers = Some [(''Content-Type'', ''application/json''),
                                 (''Authorization'', ''Bearer access-7'')],
             opt_body = Some (MasjidBody ''Al-Noor'' Null True)\<rparr>\<rparr>,
         \<lparr>req_url = ''/api/location-records/'',
          req_options = \<lparr>opt_method = Some ''POST'',
             opt_headers = Some [(''Content-Type'', ''application/json''),
                                 (''Authorization'', ''Bearer access-7'')],
             opt_body = Some (LocationBody (Str ''m-1'') (Finite 53) (Finite (- 1)) ''Leeds'' ''UK'' Null)\<rparr>\<rparr>,
         \<lparr>req_url = ''/api/signals/'',
          req_options = \<lparr>opt_method = Some ''POST'',
             opt_headers = Some [(''Content-Type'', ''application/json''),
                                 (''Authorization'', ''Bearer access-7'')],
             opt_body = Some (SignalBody (Str ''m-1'') ''ADMIN_VERIFY'' ''ADMIN'' AdminDirectSubmission
                                (Some (Str ''imam'')))\<rparr>\<rparr>,
         \<lparr>req_url = ''/api/masjid-admins/'',
          req_options = \<lparr>opt_method = Some ''POST'',
             opt_headers = Some [(''Content-Type'', ''application/json''),
                                 (''Authorization'', ''Bearer access-7'')],
             opt_body = Some (AdminLinkBody (Str ''imam'') (Str ''m-1'') False)\<rparr>\<rparr>]\<rparr>)"
  by (simp add: submitMasjidReport_def authFetch_def fetch_def first_options_def
      set_authorization_def bearer_def held_def getAccess_def getRefresh_def getUser_def post_def
      or_null_def signal_body_def trim_samples ok_def opt_prop_def Let_def
      accepting_net_def sample_form_def admin_in_def)

lemma signed_in_sent: "sent signed_in = []"
  by (simp add: signed_in_def)

lemma sample_form_filled: "filled sample_form"
  by (simp add: filled_def sample_form_def trim_samples)

text \<open>
  C1, as amended. A report by a user who is no admin (\<open>isAdmin = false\<close>) sends nothing
  when a required field is missing. Otherwise its first request creates the venue with
  \<open>isActive = false\<close>, and every request of the run that creates a venue says so. Every
  signal the run sends has \<open>signalType\<close> \<open>ACTIVE\<close> and \<open>sourceType\<close> \<open>USER\<close>, and a run that
  ends in success has sent one.
\<close>

theorem user_submission_is_pending:
  "(let run = submitMasjidReport False net f w; reqs = issued w (snd run)
    in sent (snd run) = sent w @ reqs
     \<and> set (venue_flags reqs) \<subseteq> {False}
     \<and> set (signal_kinds reqs) \<subseteq> {(''ACTIVE'', ''USER'')}
     \<and> (fst run = Invalid) = (\<not> filled f)
     \<and> (fst run = Invalid \<longrightarrow> reqs = [])
     \<and> (fst run \<noteq> Invalid \<longrightarrow> reqs \<noteq> [] \<and> venue_flag (hd reqs) = Some False)
     \<and> (fst run = Reported \<longrightarrow> signal_kinds reqs \<noteq> []))"
  unfolding Let_def
  using submit_requests[where isAdmin = False and net = net and f = f and w = w]
    submit_invalid_iff[of False net f w]
  by simp

text \<open>The theorem of C1 on the report of the signed-in user.\<close>

theorem user_submission_is_pending_witness:
  "filled sample_form
   \<and> fst (submitMasjidReport False accepting_net sample_form signed_in) = Reported
   \<and> fst (submitMasjidReport False accepting_net sample_form signed_in) \<noteq> Invalid
   \<and> venue_flag (hd (issued signed_in (snd (submitMasjidReport False accepting_net sample_form signed_in))))
       = Some False
   \<and> set (venue_flags (issued signed_in (snd (submitMasjidReport False accepting_net sample_form signed_in))))
       \<subseteq> {False}
   \<and> signal_kinds (issued signed_in (snd (submitMasjidReport False accepting_net sample_form signed_in)))
       \<noteq> []
   \<and> set (signal_kinds (issued signed_in (snd (submitMasjidReport False accepting_net sample_form signed_in))))
       \<subseteq> {(''ACTIVE'', ''USER'')}"
proof -
  have run: "fst (submitMasjidReport False accepting_net sample_form signed_in) = Reported"
    by (simp add: user_run)
  from user_submission_is_pending[of accepting_net sample_form signed_in] run sample_form_filled
  show ?thesis by (simp add: Let_def)
qed

text \<open>
  C1 as stated fails: the signal that accompanies the report of the signed-in user has
  the kind \<open>ACTIVE\<close>, not \<open>INITIAL\<close>.
\<close>

theorem user_submission_signal_is_ACTIVE:
  "fst (submitMasjidReport False accepting_net sample_form signed_in) = Reported
   \<and> signal_kinds (issued signed_in (snd (submitMasjidReport False accepting_net sample_form signed_in)))
       = [(''ACTIVE'', ''USER'')]
   \<and> (''INITIAL'', ''USER'')
       \<notin> set (signal_kinds (issued signed_in (snd (submitMasjidReport False accepting_net sample_form signed_in))))"
  by (simp add: user_run issued_def signed_in_sent signal_kinds_def List.map_filter_def)

text \<open>
  C5. A report by a masjid admin (\<open>isAdmin = true\<close>) sends nothing when a required field
  is missing. Otherwise its first request creates the venue with \<open>isActive = true\<close>, and
  every request of the run that creates a venue says so. Every signal the run sends has
  \<open>signalType\<close> \<open>ADMIN_VERIFY\<close> and \<open>sourceType\<close> \<open>ADMIN\<close>, and a run that ends in success
  has sent one.
\<close>

theorem admin_submission_is_live:
  "(let run = submitMasjidReport True net f w; reqs = issued w (snd run)
    in sent (snd run) = sent w @ reqs
     \<and> set (venue_flags reqs) \<subseteq> {True}
     \<and> set (signal_kinds reqs) \<subseteq> {(''ADMIN_VERIFY'', ''ADMIN'')}
     \<and> (fst run = Invalid) = (\<not> filled f)
     \<and> (fst run = Invalid \<longrightarrow> reqs = [])
     \<and> (fst run \<noteq> Invalid \<longrightarrow> reqs \<noteq> [] \<and> venue_flag (hd reqs) = Some True)
     \<and> (fst run = Reported \<longrightarrow> signal_kinds reqs \<noteq> []))"
  unfolding Let_def
  using submit_requests[where isAdmin = True and net = net and f = f and w = w]
    submit_invalid_iff[of True net f w]
  by simp

text \<open>The theorem of C5 on the report of the admin.\<close>

theorem admin_submission_is_live_witness:
  "filled sample_form
   \<and> fst (submitMasjidReport True accepting_net sample_form admin_in) = Reported
   \<and> fst (submitMasjidReport True accepting_net sample_form admin_in) \<noteq> Invalid
   \<and> venue_flag (hd (issued admin_in (snd (submitMasjidReport True accepting_net sample_form admin_in))))
       = Some True
   \<and> set (venue_flags (issued admin_in (snd (submitMasjidReport True accepting_net sample_form admin_in))))
       \<subseteq> {True}
   \<and> signal_kinds (issued admin_in (snd (submitMasjidReport True accepting_net sample_form admin_in)))
       \<noteq> []
   \<and> set (signal_kinds (issued admin_in (snd (submitMasjidReport True accepting_net sample_form admin_in))))
       \<subseteq> {(''ADMIN_VERIFY'', ''ADMIN'')}"
proof -
  have run: "fst (submitMasjidReport True accepting_net sample_form admin_in) = Reported"
    by (simp add: admin_run)
  from admin_submission_is_live[of accepting_net sample_form admin_in] run sample_form_filled
  show ?thesis by (simp add: Let_def)
qed



section \<open>What the verification page shows\<close>

lemma initVerify_lookup:
  assumes "data_token el = Some t" and "t \<noteq> []"
  shows "initVerify net localeDate (Some el) w =
     (Some (case net (sent w @ [verify_request t]) of
              Rejected \<Rightarrow> not_found_card el
            | Response res \<Rightarrow>
                if \<not> ok res then not_found_card el
                else (case json res of
                        None \<Rightarrow> not_found_card el
                      | Some data \<Rightarrow>
                          (case get_prop data ''valid'' of
                             Inl e \<Rightarrow> not_found_card el
                           | Inr v \<Rightarrow>
                               if truthy v then
                                 (case valid_body localeDate data of
                                    Inl e \<Rightarrow> not_found_card el
                                  | Inr body \<Rightarrow> verified_card body el)
                               else invalid_card el))),
      w\<lparr>sent := sent w @ [verify_request t]\<rparr>)"
  using assms
  by (simp add: initVerify_def apiFetch_def fetch_def held_def verify_request_def
           split: outcome.splits option.splits sum.splits)

lemma invalid_not_found_differ:
  "title_text (invalid_card el) = ''Badge Invalid''"
  "title_text (not_found_card el) = ''Badge Not Found''"
  "invalid_card el \<noteq> not_found_card el"
proof -
  show a: "title_text (invalid_card el) = ''Badge Invalid''" by (simp add: invalid_card_def)
  show b: "title_text (not_found_card el) = ''Badge Not Found''" by (simp add: not_found_card_def)
  show "invalid_card el \<noteq> not_found_card el"
  proof
    assume "invalid_card el = not_found_card el"
    then have "title_text (invalid_card el) = title_text (not_found_card el)" by simp
    then show False unfolding a b by simp
  qed
qed

text \<open>
  C4, as amended. A lookup answered by an \<open>ok\<close> response whose \<open>valid\<close> is falsy is shown
  as \<open>Badge Invalid\<close>, with a fixed text: nothing of the answer but the falsy \<open>valid\<close>
  reaches the page, so two such lookups show the same. A lookup that fails (no
  response, a response that is not \<open>ok\<close>, a body that is no JSON or is \<open>null\<close>) is shown
  as \<open>Badge Not Found\<close>, which differs. The lookup sends one request.
\<close>

theorem verify_page_outcomes:
  assumes "data_token el = Some t" and "t \<noteq> []"
  shows "(net (sent w @ [verify_request t]) = Response res \<and> ok res \<and> json res = Some d
              \<and> get_prop d ''valid'' = Inr v \<and> \<not> truthy v
            \<longrightarrow> fst (initVerify net localeDate (Some el) w) = Some (invalid_card el))
       \<and> (net (sent w @ [verify_request t]) = Rejected
          \<or> (net (sent w @ [verify_request t]) = Response res'
              \<and> (\<not> ok res' \<or> json res' = None \<or> json res' = Some Null))
            \<longrightarrow> fst (initVerify net localeDate (Some el) w) = Some (not_found_card el))
       \<and> title_text (invalid_card el) = ''Badge Invalid''
       \<and> title_text (not_found_card el) = ''Badge Not Found''
       \<and> invalid_card el \<noteq> not_found_card el
       \<and> issued w (snd (initVerify net localeDate (Some el) w)) = [verify_request t]"
  using invalid_not_found_differ[of el]
  by (auto simp: initVerify_lookup[OF assms] issued_def)

text \<open>The theorem of C4 on the lookup of a revoked badge.\<close>

theorem verify_page_outcomes_witness:
  "data_token (blank_card ''revoked-1'') = Some ''revoked-1'' \<and> ''revoked-1'' \<noteq> []
   \<and> lookup_net (sent visitor @ [verify_request ''revoked-1''])
       = Response \<lparr>status = 200, json = Some (Obj [(''valid'', Bool False)])\<rparr>
   \<and> ok \<lparr>status = 200, json = Some (Obj [(''valid'', Bool False)])\<rparr>
   \<and> get_prop (Obj [(''valid'', Bool False)]) ''valid'' = Inr (Bool False) \<and> \<not> truthy (Bool False)
   \<and> fst (initVerify lookup_net fixed_date (Some (blank_card ''revoked-1'')) visitor)
       = Some (invalid_card (blank_card ''revoked-1''))
   \<and> issued visitor (snd (initVerify lookup_net fixed_date (Some (blank_card ''revoked-1'')) visitor))
       = [verify_request ''revoked-1'']"
  using verify_page_outcomes[of "blank_card ''revoked-1''" "''revoked-1''" lookup_net visitor
      "\<lparr>status = 200, json = Some (Obj [(''valid'', Bool False)])\<rparr>" "Obj [(''valid'', Bool False)]"
      "Bool False" fixed_date]
  by (simp add: blank_card_def lookup_net_def visitor_def verify_request_def ok_def)

text \<open>
  C4 as stated fails: when the endpoint answers 404 to a token it does not know, the
  page shows \<open>Badge Not Found\<close> for that token and \<open>Badge Invalid\<close> for the token of a
  revoked badge.
\<close>

theorem verify_unknown_token_shown_differently:
  "fst (initVerify lookup_net fixed_date (Some (blank_card ''unknown-9'')) visitor)
     = Some (not_found_card (blank_card ''unknown-9''))
   \<and> fst (initVerify lookup_net fixed_date (Some (blank_card ''revoked-1'')) visitor)
     = Some (invalid_card (blank_card ''revoked-1''))
   \<and> title_text (not_found_card (blank_card ''unknown-9'')) = ''Badge Not Found''
   \<and> title_text (invalid_card (blank_card ''revoked-1'')) = ''Badge Invalid''
   \<and> body_html (not_found_card (blank_card ''unknown-9''))
       \<noteq> body_html (invalid_card (blank_card ''revoked-1''))"
  by (simp add: initVerify_lookup[of _ "''unknown-9''"] initVerify_lookup[of _ "''revoked-1''"]
        blank_card_def lookup_net_def visitor_def verify_request_def ok_def
        not_found_card_def invalid_card_def)


text \<open>
  A badge that is valid is shown with what the answer says of it; when the name of the
  masjid in the answer has no text, building the body throws, and the page shows
  \<open>Badge Not Found\<close>.
\<close>

lemma verified_badge_shown:
  \<open>fst (initVerify
          (\<lambda>qs. Response \<lparr>status = 200,
                            json = Some (Obj [(''valid'', Bool True), (''masjid'', Str ''Al-Noor <1>''),
                                              (''masjidID'', Num 12), (''issuedAt'', Str ''2026-01-01''),
                                              (''expiresAt'', Null)])\<rparr>)
          fixed_date (Some (blank_card ''good-1'')) visitor)
     = Some (verified_card
               (''\<newline>        <p class="mb-2">This badge is <strong>active and valid</strong>.</p>''
                @ ''\<newline>        <hr>''
                @ ''\<newline>        <p class="mb-1"><strong>Masjid:</strong> Al-Noor &lt;1&gt;</p>''
                @ ''\<newline>        <p class="mb-1"><strong>Issued:</strong> 1/1/2026</p>''
                @ ''\<newline>        <p class="mb-0"><strong>Expires:</strong> No expiry</p>''
                @ ''\<newline>        <a href="/masjid/12/" class="btn btn-al-primary mt-3">View Masjid</a>''
                @ ''\<newline>      '')
               (blank_card ''good-1''))\<close>
  by (simp add: initVerify_lookup[of _ "''good-1''"] blank_card_def ok_def valid_body_def
        and_then_def escHTML_def js_or_def text_innerHTML_def escape_char_def opt_prop_def
        date_text_def fixed_date_def int_to_string_def nat_to_string.simps[of 12]
        nat_to_string.simps[of "Suc 0"] digit_char_def)

lemma verified_badge_without_text:
  "fst (initVerify
          (\<lambda>qs. Response \<lparr>status = 200,
                            json = Some (Obj [(''valid'', Bool True), (''masjid'', no_text)])\<rparr>)
          fixed_date (Some (blank_card ''good-1'')) visitor)
     = Some (not_found_card (blank_card ''good-1''))"
  by (simp add: initVerify_lookup[of _ "''good-1''"] blank_card_def ok_def valid_body_def
        and_then_def escHTML_def js_or_def opt_prop_def no_text_def)


section \<open>What the badge list shows\<close>

lemma shown_valid_eq:
  assumes "\<not> nullish b"
  shows "shown_valid b = Inr (truthy (opt_prop b ''isActive'') \<and> \<not> truthy (opt_prop b ''isRevoked''))"
proof -
  from assms obtain a r where "get_prop b ''isActive'' = Inr a" "get_prop b ''isRevoked'' = Inr r"
    using get_prop_Inr_iff by metis
  then show ?thesis by (simp add: shown_valid_def opt_prop_def)
qed

lemma shown_valid_nullish: "nullish b \<Longrightarrow> shown_valid b = Inl TypeError"
  by (cases b) (simp_all add: shown_valid_def)

lemma badge_row_label:
  assumes "badge_row_of localeDate b = Inr row"
  shows "shield_label row
           = (if truthy (opt_prop b ''isActive'') \<and> \<not> truthy (opt_prop b ''isRevoked'')
              then ''Valid'' else ''Revoked'')"
proof (cases "nullish b")
  case True
  then show ?thesis using assms by (simp add: badge_row_of_def and_then_def shown_valid_nullish)
next
  case False
  from assms show ?thesis
    unfolding badge_row_of_def and_then_def shown_valid_eq[OF False]
    by (auto split: sum.splits if_splits)
qed

lemma badge_row_renders:
  assumes "\<not> nullish b"
  shows "(\<exists>row. badge_row_of localeDate b = Inr row)
           = ((\<exists>t. to_string (opt_prop b ''badgeID'') = Inr t)
              \<and> (\<exists>t. to_string (opt_prop b ''issueDate'') = Inr t)
              \<and> (truthy (opt_prop b ''expiryDate'')
                   \<longrightarrow> (\<exists>t. to_string (opt_prop b ''expiryDate'') = Inr t)))"
  unfolding badge_row_of_def and_then_def shown_valid_eq[OF assms] date_text_def
  by (auto split: sum.splits)

lemma badge_rows_labels:
  "badge_rows localeDate bs = Inr rows \<Longrightarrow>
     map shield_label rows
       = map (\<lambda>b. if truthy (opt_prop b ''isActive'') \<and> \<not> truthy (opt_prop b ''isRevoked'')
                  then ''Valid'' else ''Revoked'') bs"
proof (induction bs arbitrary: rows)
  case Nil
  then show ?case by simp
next
  case (Cons b bs)
  from Cons.prems obtain row rest where
    r: "badge_row_of localeDate b = Inr row" "badge_rows localeDate bs = Inr rest" "rows = row # rest"
    by (auto simp: and_then_def split: sum.splits)
  from Cons.IH[OF r(2)] badge_row_label[OF r(1)] r(3) show ?case by simp
qed

text \<open>
  C6, as amended. The test of the badge list, \<open>b.isActive && !b.isRevoked\<close>, holds exactly
  when \<open>isActive\<close> is truthy and \<open>isRevoked\<close> is falsy. So it fails for a revoked badge
  whatever its expiry; it holds for a badge that is valid by the rule of the
  specification; and where the badge has no expiry or its expiry is later than now, it
  is that rule. The expiry is printed and not compared with the time.

  A row is built for a badge exactly when its \<open>badgeID\<close>, its \<open>issueDate\<close> and, if truthy,
  its \<open>expiryDate\<close> have a text; every row that is built is labelled \<open>Valid\<close> when the
  test holds and \<open>Revoked\<close> when it does not, in a list of rows as for one badge.
\<close>

theorem badge_shown_valid_rule:
  assumes "\<not> nullish b"
  shows "shown_valid b = Inr (truthy (opt_prop b ''isActive'') \<and> \<not> truthy (opt_prop b ''isRevoked''))
       \<and> (truthy (opt_prop b ''isRevoked'') \<longrightarrow> shown_valid b = Inr False)
       \<and> (spec_valid getTime b now \<longrightarrow> shown_valid b = Inr True)
       \<and> ((case expiry_of getTime b of None \<Rightarrow> True | Some e \<Rightarrow> e > now)
             \<longrightarrow> shown_valid b = Inr (spec_valid getTime b now))
       \<and> (\<exists>row. badge_row_of localeDate b = Inr row)
           = ((\<exists>t. to_string (opt_prop b ''badgeID'') = Inr t)
              \<and> (\<exists>t. to_string (opt_prop b ''issueDate'') = Inr t)
              \<and> (truthy (opt_prop b ''expiryDate'')
                   \<longrightarrow> (\<exists>t. to_string (opt_prop b ''expiryDate'') = Inr t)))
       \<and> (badge_row_of localeDate b = Inr row \<longrightarrow>
             shield_label row
               = (if truthy (opt_prop b ''isActive'') \<and> \<not> truthy (opt_prop b ''isRevoked'')
                  then ''Valid'' else ''Revoked''))
       \<and> (badge_rows localeDate bs = Inr rows \<longrightarrow>
             map shield_label rows
               = map (\<lambda>b. if truthy (opt_prop b ''isActive'') \<and> \<not> truthy (opt_prop b ''isRevoked'')
                          then ''Valid'' else ''Revoked'') bs)"
proof -
  have a: "shown_valid b = Inr (truthy (opt_prop b ''isActive'') \<and> \<not> truthy (opt_prop b ''isRevoked''))"
    by (rule shown_valid_eq[OF assms])
  have r: "truthy (opt_prop b ''isRevoked'') \<longrightarrow> shown_valid b = Inr False"
    by (simp add: a)
  have s: "spec_valid getTime b now \<longrightarrow> shown_valid b = Inr True"
    by (simp add: a spec_valid_def spec_effective_validity_def)
  have e: "(case expiry_of getTime b of None \<Rightarrow> True | Some e \<Rightarrow> e > now)
             \<longrightarrow> shown_valid b = Inr (spec_valid getTime b now)"
    by (simp add: a spec_valid_def spec_effective_validity_def)
  show ?thesis
    using a r s e badge_row_renders[OF assms, of localeDate]
      badge_row_label[of localeDate b row] badge_rows_labels[of localeDate bs rows]
    by blast
qed

text \<open>The theorem of C6 on a badge seen a millisecond before its expiry.\<close>

theorem badge_shown_valid_rule_witness:
  "\<not> nullish expired_badge
   \<and> shown_valid expired_badge = Inr True
   \<and> (case expiry_of millis expired_badge of None \<Rightarrow> True | Some e \<Rightarrow> e > 1767225599999)
   \<and> spec_valid millis expired_badge 1767225599999
   \<and> badge_row_of fixed_date expired_badge
       = Inr \<lparr>shield_class = ''gold'', shield_icon = ''fa-certificate'', shield_label = ''Valid'',
              badge_number = ''b-1'', issued_on = ''1/1/2026'', expires_on = Some ''1/1/2026''\<rparr>
   \<and> shield_label \<lparr>shield_class = ''gold'', shield_icon = ''fa-certificate'', shield_label = ''Valid'',
              badge_number = ''b-1'', issued_on = ''1/1/2026'', expires_on = Some ''1/1/2026''\<rparr> = ''Valid''
   \<and> badge_rows fixed_date [expired_badge, revoked_badge]
       = Inr [\<lparr>shield_class = ''gold'', shield_icon = ''fa-certificate'', shield_label = ''Valid'',
               badge_number = ''b-1'', issued_on = ''1/1/2026'', expires_on = Some ''1/1/2026''\<rparr>,
              \<lparr>shield_class = [], shield_icon = ''fa-times-circle'', shield_label = ''Revoked'',
               badge_number = ''b-2'', issued_on = ''1/1/2026'', expires_on = None\<rparr>]"
proof -
  have one: "badge_row_of fixed_date expired_badge
       = Inr \<lparr>shield_class = ''gold'', shield_icon = ''fa-certificate'', shield_label = ''Valid'',
              badge_number = ''b-1'', issued_on = ''1/1/2026'', expires_on = Some ''1/1/2026''\<rparr>"
    by (simp add: expired_badge_def badge_row_of_def and_then_def shown_valid_def opt_prop_def
          date_text_def fixed_date_def)
  have two: "badge_row_of fixed_date revoked_badge
       = Inr \<lparr>shield_class = [], shield_icon = ''fa-times-circle'', shield_label = ''Revoked'',
              badge_number = ''b-2'', issued_on = ''1/1/2026'', expires_on = None\<rparr>"
    by (simp add: revoked_badge_def badge_row_of_def and_then_def shown_valid_def opt_prop_def
          date_text_def fixed_date_def)
  have rows: "badge_rows fixed_date [expired_badge, revoked_badge]
       = Inr [\<lparr>shield_class = ''gold'', shield_icon = ''fa-certificate'', shield_label = ''Valid'',
               badge_number = ''b-1'', issued_on = ''1/1/2026'', expires_on = Some ''1/1/2026''\<rparr>,
              \<lparr>shield_class = [], shield_icon = ''fa-times-circle'', shield_label = ''Revoked'',
               badge_number = ''b-2'', issued_on = ''1/1/2026'', expires_on = None\<rparr>]"
    by (simp add: one two and_then_def)
  have n: "\<not> nullish expired_badge" by (simp add: expired_badge_def)
  from badge_shown_valid_rule[OF n, of millis 1767225599999 fixed_date
      "\<lparr>shield_class = ''gold'', shield_icon = ''fa-certificate'', shield_label = ''Valid'',
        badge_number = ''b-1'', issued_on = ''1/1/2026'', expires_on = Some ''1/1/2026''\<rparr>"
      "[expired_badge, revoked_badge]"
      "[\<lparr>shield_class = ''gold'', shield_icon = ''fa-certificate'', shield_label = ''Valid'',
         badge_number = ''b-1'', issued_on = ''1/1/2026'', expires_on = Some ''1/1/2026''\<rparr>,
        \<lparr>shield_class = [], shield_icon = ''fa-times-circle'', shield_label = ''Revoked'',
         badge_number = ''b-2'', issued_on = ''1/1/2026'', expires_on = None\<rparr>]"]
    one rows n
  show ?thesis
    by (simp add: expired_badge_def expiry_of_def opt_prop_def spec_valid_def
          spec_effective_validity_def)
qed

text \<open>
  C6 as stated fails: at the instant of its expiry a badge that is active and not
  revoked is invalid by the rule, and the badge list shows it as \<open>Valid\<close>.
\<close>

theorem expired_badge_shown_valid:
  "shown_valid expired_badge = Inr True
   \<and> map_sum id shield_label (badge_row_of fixed_date expired_badge) = Inr ''Valid''
   \<and> expiry_of millis expired_badge = Some 1767225600000
   \<and> \<not> spec_valid millis expired_badge 1767225600000"
  by (simp add: expired_badge_def shown_valid_def badge_row_of_def and_then_def date_text_def
        expiry_of_def opt_prop_def spec_valid_def spec_effective_validity_def)

text \<open>
  One badge whose \<open>badgeID\<close> has no text stops the whole list: no row is built, for that
  badge or for any other.
\<close>

lemma badge_without_text_stops_list:
  "badge_rows fixed_date [expired_badge, Obj [(''badgeID'', no_text), (''isActive'', Bool True)]]
     = Inl TypeError"
  by (simp add: expired_badge_def badge_row_of_def and_then_def shown_valid_def opt_prop_def
        date_text_def no_text_def)

end
